theory Spec2Isabelle
  imports Complex_Main "HOL-Library.Word"
begin

section \<open>Strings\<close>

text \<open>
  A JavaScript string is a sequence of UTF-16 code units. Every character of the
  data file lies in the Basic Multilingual Plane, so each is one code unit. ASCII
  text is written with \<open>js\<close>; the IPA letters get names.
\<close>

type_synonym jsstring = "16 word list"

definition js :: "string \<Rightarrow> jsstring" where
  "js s = map of_char s"

abbreviation (input) ipa_ash :: jsstring where "ipa_ash \<equiv> [0xE6]"
abbreviation (input) ipa_eth :: jsstring where "ipa_eth \<equiv> [0xF0]"
abbreviation (input) ipa_eng :: jsstring where "ipa_eng \<equiv> [0x14B]"
abbreviation (input) ipa_alpha :: jsstring where "ipa_alpha \<equiv> [0x251]"
abbreviation (input) ipa_open_o :: jsstring where "ipa_open_o \<equiv> [0x254]"
abbreviation (input) ipa_schwa :: jsstring where "ipa_schwa \<equiv> [0x259]"
abbreviation (input) ipa_schwa_hook :: jsstring where "ipa_schwa_hook \<equiv> [0x25A]"
abbreviation (input) ipa_open_e :: jsstring where "ipa_open_e \<equiv> [0x25B]"
abbreviation (input) ipa_rev_open_e :: jsstring where "ipa_rev_open_e \<equiv> [0x25C]"
abbreviation (input) ipa_script_g :: jsstring where "ipa_script_g \<equiv> [0x261]"
abbreviation (input) ipa_small_cap_i :: jsstring where "ipa_small_cap_i \<equiv> [0x26A]"
abbreviation (input) ipa_turned_r :: jsstring where "ipa_turned_r \<equiv> [0x279]"
abbreviation (input) ipa_fishhook_r :: jsstring where "ipa_fishhook_r \<equiv> [0x27E]"
abbreviation (input) ipa_esh :: jsstring where "ipa_esh \<equiv> [0x283]"
abbreviation (input) ipa_upsilon :: jsstring where "ipa_upsilon \<equiv> [0x28A]"
abbreviation (input) ipa_turned_v :: jsstring where "ipa_turned_v \<equiv> [0x28C]"
abbreviation (input) ipa_stress :: jsstring where "ipa_stress \<equiv> [0x2C8]"
abbreviation (input) ipa_theta :: jsstring where "ipa_theta \<equiv> [0x3B8]"

text \<open>
  \<^verbatim>\<open>String.prototype.trim\<close> removes the code units of ECMAScript's WhiteSpace and
  LineTerminator productions from both ends.
\<close>

definition is_whitespace :: "16 word \<Rightarrow> bool" where
  "is_whitespace c \<longleftrightarrow> c \<in> set [0x9, 0xA, 0xB, 0xC, 0xD, 0x20, 0xA0, 0x1680,
     0x2000, 0x2001, 0x2002, 0x2003, 0x2004, 0x2005, 0x2006, 0x2007, 0x2008, 0x2009, 0x200A,
     0x2028, 0x2029, 0x202F, 0x205F, 0x3000, 0xFEFF]"

definition trim :: "jsstring \<Rightarrow> jsstring" where
  "trim s = rev (dropWhile is_whitespace (rev (dropWhile is_whitespace s)))"

text \<open>
  \<^verbatim>\<open>s.split(sep)\<close> for a separator of one code unit: the result is never empty, and
  the empty string splits into one empty piece.
\<close>

fun split_at :: "16 word \<Rightarrow> jsstring \<Rightarrow> jsstring list" where
  "split_at sep [] = [[]]"
| "split_at sep (c # cs) =
     (if c = sep then [] # split_at sep cs
      else (case split_at sep cs of [] \<Rightarrow> [[c]] | t # ts \<Rightarrow> (c # t) # ts))"

text \<open>\<^verbatim>\<open>xs.join(sep)\<close> on an array of strings.\<close>

fun join :: "jsstring \<Rightarrow> jsstring list \<Rightarrow> jsstring" where
  "join sep [] = []"
| "join sep [x] = x"
| "join sep (x # y # ys) = x @ sep @ join sep (y # ys)"

section \<open>Numbers\<close>

text \<open>
  JavaScript numbers are IEEE 754 doubles, and \<^verbatim>\<open>/\<close> and \<^verbatim>\<open>*\<close> round their exact
  result to the nearest double, ties to the even significand. A double that is not
  negative is written \<open>(m, s)\<close> for the value \<open>m * 2 ^ s\<close>, with \<open>m < 2 ^ 53\<close>; a
  rounded result has \<open>2 ^ 52 \<le> m \<le> 2 ^ 53\<close> unless it is zero. The operands here are
  array lengths, the constant 100 and values of \<^verbatim>\<open>Math.random()\<close>: no operation
  overflows, and of a result in the subnormal range only the floor is used, which is 0.
\<close>

type_synonym double = "int \<times> int"

text \<open>The number of binary digits of a positive integer.\<close>

function bitlen :: "int \<Rightarrow> nat" where
  "bitlen n = (if n \<le> 0 then 0 else Suc (bitlen (n div 2)))"
  by pat_completeness auto
termination
  by (relation "measure nat") auto

declare bitlen.simps [simp del]

text \<open>The quotient \<open>N / D\<close> rounded to the nearest integer, ties to even.\<close>

definition round_half_even :: "int \<Rightarrow> int \<Rightarrow> int" where
  "round_half_even N D =
     (let m = N div D; r = N mod D
      in if 2 * r < D then m
         else if D < 2 * r then m + 1
         else if even m then m else m + 1)"

text \<open>The exponent \<open>e\<close> with \<open>2 ^ e \<le> p / q < 2 ^ (e + 1)\<close>, for positive \<open>p\<close> and \<open>q\<close>.\<close>

definition binade :: "int \<Rightarrow> int \<Rightarrow> int" where
  "binade p q =
     (let d = int (bitlen p) - int (bitlen q)
      in if (if 0 \<le> d then q * 2 ^ nat d \<le> p else q \<le> p * 2 ^ nat (- d)) then d else d - 1)"

text \<open>The double nearest to \<open>p / q\<close>, for \<open>p\<close> not negative and \<open>q\<close> positive.\<close>

definition to_double :: "int \<Rightarrow> int \<Rightarrow> double" where
  "to_double p q =
     (if p = 0 then (0, 0)
      else (let s = binade p q - 52
            in (if 0 \<le> s then round_half_even p (q * 2 ^ nat s)
                else round_half_even (p * 2 ^ nat (- s)) q, s)))"

text \<open>The product of a double and a positive integer, rounded.\<close>

definition double_times :: "double \<Rightarrow> int \<Rightarrow> double" where
  "double_times x k =
     (case x of (m, s) \<Rightarrow>
        if 0 \<le> s then to_double (m * k * 2 ^ nat s) 1 else to_double (m * k) (2 ^ nat (- s)))"

text \<open>\<^verbatim>\<open>Math.round\<close>: the nearest integer, a tie going up.\<close>

definition Math_round :: "double \<Rightarrow> int" where
  "Math_round x =
     (case x of (m, s) \<Rightarrow>
        if 0 \<le> s then m * 2 ^ nat s
        else (2 * m + 2 ^ nat (- s)) div 2 ^ nat (1 - s))"

text \<open>\<^verbatim>\<open>Math.floor\<close>.\<close>

definition Math_floor :: "double \<Rightarrow> int" where
  "Math_floor x =
     (case x of (m, s) \<Rightarrow> if 0 \<le> s then m * 2 ^ nat s else m div 2 ^ nat (- s))"

text \<open>
  The results of \<^verbatim>\<open>Math.random()\<close>: the doubles that are at least 0 and less than 1.
\<close>

definition unit_double :: "double \<Rightarrow> bool" where
  "unit_double x \<longleftrightarrow>
     (case x of (m, s) \<Rightarrow>
        0 \<le> m \<and> m < 2 ^ 53 \<and> - 1074 \<le> s \<and> s \<le> 0 \<and> m < 2 ^ nat (- s))"

text \<open>\<^verbatim>\<open>x > 0.25\<close>; the constant is a double, and the comparison is exact.\<close>

definition above_quarter :: "double \<Rightarrow> bool" where
  "above_quarter x \<longleftrightarrow>
     (case x of (m, s) \<Rightarrow> if 0 \<le> s then 1 < 4 * m * 2 ^ nat s else 2 ^ nat (- s) < 4 * m)"

text \<open>The real number that a double stands for.\<close>

definition value_of :: "double \<Rightarrow> real" where
  "value_of x = (case x of (m, s) \<Rightarrow> real_of_int m * 2 powi s)"

section \<open>Reference data (data/words.ts)\<close>

record SentenceEntry =
  sentence :: jsstring
  phonemes :: "jsstring list"
  ipa :: jsstring

record PhonemeInfo =
  description :: jsstring
  example :: jsstring
  tip :: jsstring

definition sentenceList :: "SentenceEntry list" where
  "sentenceList = [
    \<lparr>sentence = js ''The weather is nice.'',
     phonemes = [ipa_eth, ipa_schwa, js ''w'', ipa_open_e, ipa_eth, ipa_schwa, ipa_small_cap_i, js ''z'', js ''n'', js ''a'', js ''j'', js ''s''],
     ipa = js ''/'' @ ipa_eth @ ipa_schwa @ js '' '' @ ipa_stress @ js ''w'' @ ipa_open_e @ ipa_eth @ ipa_schwa @ js ''r '' @ ipa_small_cap_i @ js ''z na'' @ ipa_small_cap_i @ js ''s/''\<rparr>,
    \<lparr>sentence = js ''I think so.'',
     phonemes = [js ''a'', js ''j'', ipa_theta, ipa_small_cap_i, ipa_eng, js ''k'', js ''s'', js ''o'', js ''w''],
     ipa = js ''/a'' @ ipa_small_cap_i @ js '' '' @ ipa_theta @ ipa_small_cap_i @ ipa_eng @ js ''k so'' @ ipa_upsilon @ js ''/''\<rparr>,
    \<lparr>sentence = js ''This is my brother.'',
     phonemes = [ipa_eth, ipa_small_cap_i, js ''s'', ipa_small_cap_i, js ''z'', js ''m'', js ''a'', js ''j'', js ''b'', ipa_turned_r, ipa_turned_v, ipa_eth, ipa_schwa],
     ipa = js ''/'' @ ipa_eth @ ipa_small_cap_i @ js ''s '' @ ipa_small_cap_i @ js ''z ma'' @ ipa_small_cap_i @ js '' '' @ ipa_stress @ js ''br'' @ ipa_turned_v @ ipa_eth @ ipa_schwa @ js ''r/''\<rparr>,
    \<lparr>sentence = js ''Where is the water?'',
     phonemes = [js ''w'', ipa_open_e, ipa_turned_r, ipa_small_cap_i, js ''z'', ipa_eth, ipa_schwa, js ''w'', ipa_open_o, js ''t'', ipa_schwa],
     ipa = js ''/w'' @ ipa_open_e @ js ''r '' @ ipa_small_cap_i @ js ''z '' @ ipa_eth @ ipa_schwa @ js '' '' @ ipa_stress @ js ''w'' @ ipa_open_o @ js ''t'' @ ipa_schwa @ js ''r/''\<rparr>,
    \<lparr>sentence = js ''Three things matter.'',
     phonemes = [ipa_theta, ipa_turned_r, js ''i'', ipa_theta, ipa_small_cap_i, ipa_eng, js ''z'', js ''m'', ipa_ash, js ''t'', ipa_schwa],
     ipa = js ''/'' @ ipa_theta @ js ''ri '' @ ipa_theta @ ipa_small_cap_i @ ipa_eng @ js ''z '' @ ipa_stress @ js ''m'' @ ipa_ash @ js ''t'' @ ipa_schwa @ js ''r/''\<rparr>,
    \<lparr>sentence = js ''Thank you very much.'',
     phonemes = [ipa_theta, ipa_ash, ipa_eng, js ''k'', js ''j'', js ''u'', js ''v'', ipa_open_e, ipa_turned_r, js ''i'', js ''m'', ipa_turned_v, js ''t'' @ ipa_esh],
     ipa = js ''/'' @ ipa_theta @ ipa_ash @ ipa_eng @ js ''k ju '' @ ipa_stress @ js ''v'' @ ipa_open_e @ js ''ri m'' @ ipa_turned_v @ js ''t'' @ ipa_esh @ js ''/''\<rparr>,
    \<lparr>sentence = js ''What do you think?'',
     phonemes = [js ''w'', ipa_turned_v, js ''t'', js ''d'', js ''u'', js ''j'', js ''u'', ipa_theta, ipa_small_cap_i, ipa_eng, js ''k''],
     ipa = js ''/w'' @ ipa_turned_v @ js ''t du ju '' @ ipa_theta @ ipa_small_cap_i @ ipa_eng @ js ''k/''\<rparr>,
    \<lparr>sentence = js ''Father and mother.'',
     phonemes = [js ''f'', ipa_alpha, ipa_eth, ipa_schwa, ipa_ash, js ''n'', js ''d'', js ''m'', ipa_turned_v, ipa_eth, ipa_schwa],
     ipa = js ''/'' @ ipa_stress @ js ''f'' @ ipa_alpha @ ipa_eth @ ipa_schwa @ js ''r '' @ ipa_ash @ js ''nd '' @ ipa_stress @ js ''m'' @ ipa_turned_v @ ipa_eth @ ipa_schwa @ js ''r/''\<rparr>,
    \<lparr>sentence = js ''Right or wrong?'',
     phonemes = [ipa_turned_r, js ''a'', js ''j'', js ''t'', ipa_open_o, ipa_turned_r, ipa_turned_r, ipa_open_o, ipa_eng],
     ipa = js ''/ra'' @ ipa_small_cap_i @ js ''t '' @ ipa_open_o @ js ''r r'' @ ipa_open_o @ ipa_eng @ js ''/''\<rparr>,
    \<lparr>sentence = js ''Hello world.'',
     phonemes = [js ''h'', ipa_schwa, js ''l'', js ''o'', js ''w'', js ''w'', ipa_rev_open_e, ipa_turned_r, js ''l'', js ''d''],
     ipa = js ''/h'' @ ipa_schwa @ ipa_stress @ js ''lo'' @ ipa_upsilon @ js '' w'' @ ipa_rev_open_e @ js ''rld/''\<rparr>,
    \<lparr>sentence = js ''Good morning.'',
     phonemes = [ipa_script_g, ipa_upsilon, js ''d'', js ''m'', ipa_open_o, ipa_turned_r, js ''n'', ipa_small_cap_i, ipa_eng],
     ipa = js ''/'' @ ipa_script_g @ ipa_upsilon @ js ''d '' @ ipa_stress @ js ''m'' @ ipa_open_o @ js ''rn'' @ ipa_small_cap_i @ ipa_eng @ js ''/''\<rparr>,
    \<lparr>sentence = js ''How are you?'',
     phonemes = [js ''h'', js ''a'', js ''w'', ipa_alpha, ipa_turned_r, js ''j'', js ''u''],
     ipa = js ''/ha'' @ ipa_upsilon @ js '' '' @ ipa_alpha @ js ''r ju/''\<rparr>]"

definition phonemeInfo_entries :: "(jsstring \<times> PhonemeInfo) list" where
  "phonemeInfo_entries = [
    (ipa_theta, \<lparr>description = js ''Voiceless TH'',
      example = js ''think, three, bath'',
      tip = js ''Put tongue between teeth, blow air without vibrating throat''\<rparr>),
    (ipa_eth, \<lparr>description = js ''Voiced TH'',
      example = js ''the, this, brother'',
      tip = js ''Put tongue between teeth, vibrate your throat''\<rparr>),
    (ipa_turned_r, \<lparr>description = js ''American R'',
      example = js ''red, right, car'',
      tip = js ''Curl tongue back, don't touch roof of mouth''\<rparr>),
    (ipa_schwa_hook, \<lparr>description = js ''R-colored schwa'',
      example = js ''water, butter, never'',
      tip = js ''Relaxed 'uh' + R sound combined''\<rparr>),
    (ipa_ash, \<lparr>description = js ''Short A'',
      example = js ''cat, man, hand'',
      tip = js ''Open mouth wide, tongue low and front''\<rparr>),
    (ipa_turned_v, \<lparr>description = js ''Short U'',
      example = js ''cup, love, mother'',
      tip = js ''Short, relaxed 'uh' in the middle of mouth''\<rparr>),
    (ipa_alpha, \<lparr>description = js ''Open A'',
      example = js ''father, calm, spa'',
      tip = js ''Open mouth wide, tongue low and back''\<rparr>),
    (ipa_open_o, \<lparr>description = js ''Open O'',
      example = js ''thought, caught, all'',
      tip = js ''Round lips slightly, back of tongue raised''\<rparr>),
    (ipa_open_e, \<lparr>description = js ''Short E'',
      example = js ''bed, head, said'',
      tip = js ''Mouth slightly open, tongue mid-front''\<rparr>),
    (ipa_small_cap_i, \<lparr>description = js ''Short I'',
      example = js ''bit, will, this'',
      tip = js ''Short 'ih' sound, relaxed tongue''\<rparr>),
    (js ''i'', \<lparr>description = js ''Long E'',
      example = js ''see, we, easy'',
      tip = js ''Smile position, tongue high and front''\<rparr>),
    (js ''u'', \<lparr>description = js ''Long U'',
      example = js ''too, blue, through'',
      tip = js ''Round lips tightly, tongue high and back''\<rparr>),
    (ipa_schwa, \<lparr>description = js ''Schwa'',
      example = js ''about, the, banana'',
      tip = js ''Most relaxed vowel, mouth barely open''\<rparr>),
    (ipa_eng, \<lparr>description = js ''NG sound'',
      example = js ''sing, thing, going'',
      tip = js ''Back of tongue touches soft palate''\<rparr>),
    (ipa_esh, \<lparr>description = js ''SH sound'',
      example = js ''she, fish, action'',
      tip = js ''Lips rounded, air through teeth gap''\<rparr>),
    (js ''t'' @ ipa_esh, \<lparr>description = js ''CH sound'',
      example = js ''church, watch, much'',
      tip = js ''Start with T, release into SH''\<rparr>),
    (js ''w'', \<lparr>description = js ''W sound'',
      example = js ''we, water, with'',
      tip = js ''Round lips tight, then open to vowel''\<rparr>),
    (js ''v'', \<lparr>description = js ''V sound'',
      example = js ''very, love, never'',
      tip = js ''Upper teeth on lower lip, vibrate throat''\<rparr>),
    (js ''a'', \<lparr>description = js ''Open A / diphthong start'',
      example = js ''my, high, time'',
      tip = js ''Start of 'ai' diphthong, open mouth''\<rparr>),
    (js ''j'', \<lparr>description = js ''Y glide'',
      example = js ''yes, you, beyond'',
      tip = js ''Like 'ee' but quickly glides to next sound''\<rparr>),
    (js ''o'', \<lparr>description = js ''O sound'',
      example = js ''go, so, no'',
      tip = js ''Round lips, back vowel''\<rparr>),
    (ipa_rev_open_e, \<lparr>description = js ''UR vowel'',
      example = js ''bird, world, hurt'',
      tip = js ''Like 'er' without the final R sound''\<rparr>),
    (ipa_upsilon, \<lparr>description = js ''Short OO'',
      example = js ''book, good, put'',
      tip = js ''Short, relaxed 'oo' sound''\<rparr>),
    (ipa_script_g, \<lparr>description = js ''G sound'',
      example = js ''go, big, dog'',
      tip = js ''Back of tongue touches soft palate, voiced''\<rparr>)]"
text \<open>
  \<^verbatim>\<open>phonemeInfo[symbol]\<close> and \<^verbatim>\<open>substitutions[symbol]\<close> read a property of an object
  literal. A key written in the literal gives its value. A name that every object
  inherits from \<^verbatim>\<open>Object.prototype\<close> gives the inherited property, which is a
  function or, for \<^verbatim>\<open>__proto__\<close>, the prototype object: a truthy value that is
  neither an array nor a metadata record. Every other string gives \<^verbatim>\<open>undefined\<close>.
\<close>

definition inherited_names :: "jsstring list" where
  "inherited_names =
     [js ''constructor'', js ''hasOwnProperty'', js ''isPrototypeOf'',
      js ''propertyIsEnumerable'', js ''toLocaleString'', js ''toString'', js ''valueOf'',
      js ''__defineGetter__'', js ''__defineSetter__'', js ''__lookupGetter__'',
      js ''__lookupSetter__'', js ''__proto__'']"

datatype 'a lookup = Own 'a | Inherited | Missing

definition object_get :: "(jsstring \<times> 'a) list \<Rightarrow> jsstring \<Rightarrow> 'a lookup" where
  "object_get entries key =
     (case map_of entries key of
        Some v \<Rightarrow> Own v
      | None \<Rightarrow> (if key \<in> set inherited_names then Inherited else Missing))"

definition phonemeInfo :: "jsstring \<Rightarrow> PhonemeInfo lookup" where
  "phonemeInfo = object_get phonemeInfo_entries"

section \<open>Types of the component (App)\<close>

record PhonemeResult =
  expected :: jsstring
  actual :: "jsstring option"
  correct :: bool

datatype RecordingState = Idle | Recording | Processing | Results

datatype ModelType = Allosaurus | Wav2vec2

text \<open>
  The functions of a React component are closures over the values of one render.
  \<^verbatim>\<open>processRecording\<close> and \<^verbatim>\<open>simulateResults\<close> read \<^verbatim>\<open>currentSentence\<close> and
  \<^verbatim>\<open>model\<close>; a \<open>render_env\<close> holds the \<^verbatim>\<open>currentIndex\<close> and \<^verbatim>\<open>model\<close> of the
  render that created them.
\<close>

record render_env =
  env_index :: nat
  env_model :: ModelType

text \<open>
  \<^verbatim>\<open>const currentSentence = sentenceList[currentIndex]\<close>: out of range the read
  gives \<^verbatim>\<open>undefined\<close>.
\<close>

definition currentSentence :: "nat \<Rightarrow> SentenceEntry option" where
  "currentSentence i = (if i < length sentenceList then Some (sentenceList ! i) else None)"

text \<open>
  Modelled from the spec: the type of the body of a successful answer of
  \<^verbatim>\<open>/api/analyze\<close>, which the source reads untyped (\<^verbatim>\<open>data.comparison\<close>, \<^verbatim>\<open>data.raw\<close>,
  \<^verbatim>\<open>data.phonemes\<close>). It is an object with \<^verbatim>\<open>comparison\<close>, an ordered sequence of
  results, and either \<^verbatim>\<open>raw\<close>, a string, or \<^verbatim>\<open>phonemes\<close>, an ordered sequence of strings;
  here each of \<^verbatim>\<open>raw\<close> and \<^verbatim>\<open>phonemes\<close> may be missing.
\<close>

record analyze_response =
  comparison :: "PhonemeResult list"
  raw :: "jsstring option"
  phonemes_heard :: "jsstring list option"

text \<open>
  The form data that \<^verbatim>\<open>processRecording\<close> posts to \<^verbatim>\<open>/api/analyze\<close>, without the
  audio: the expected phonemes and the model.
\<close>

record analyze_request =
  req_expected :: "jsstring list"
  req_model :: ModelType

text \<open>
  What the awaited \<^verbatim>\<open>fetch('/api/analyze')\<close> and \<^verbatim>\<open>response.json()\<close> do: the fetch
  rejects, the status is not a success, the body does not parse, or a body arrives.
\<close>

datatype analyze_outcome =
  AnalyzeFetchRejected
| AnalyzeNotOk
| AnalyzeJsonRejected
| AnalyzeOk analyze_response

text \<open>
  What the awaited steps of \<^verbatim>\<open>playPhoneme\<close> do: the fetch rejects, the status is not
  a success, reading the blob rejects, \<^verbatim>\<open>audio.play()\<close> rejects, or the audio plays.
\<close>

datatype speak_outcome =
  SpeakFetchRejected
| SpeakNotOk
| SpeakBlobRejected
| SpeakPlayRejected
| SpeakPlayed

text \<open>
  The successive values of \<^verbatim>\<open>Math.random()\<close> drawn by one handler. Each value is a
  double in \<open>[0, 1)\<close>; the theorems that need this assume \<open>unit_double\<close> of it.
\<close>

type_synonym rng = "nat \<Rightarrow> double"

record utterance =
  utt_text :: jsstring
  utt_rate :: rat

text \<open>
  Operations on the recorded-audio handle, logged in program order:
  \<^verbatim>\<open>URL.createObjectURL\<close>, \<^verbatim>\<open>URL.revokeObjectURL\<close>, and \<^verbatim>\<open>setRecordedAudioUrl\<close>.
  Object URLs are numbered in the order of their creation.
\<close>

datatype url_op =
  CreateObjectURL nat
| RevokeObjectURL nat
| SetRecordedAudioUrl "nat option"

text \<open>
  The results view of one render, as far as its handlers read the values of that
  render: \<^verbatim>\<open>recordedAudioUrl\<close>, read by \<^verbatim>\<open>nextSentence\<close> and \<^verbatim>\<open>resetSentence\<close>, and
  \<^verbatim>\<open>results\<close>, the rows of phoneme buttons.
\<close>

record results_view =
  view_url :: "nat option"
  view_results :: "PhonemeResult list"

text \<open>
  The state of the component and of the platform objects it drives.
  \<^item> \<open>currentIndex\<close> to \<open>recordedAudioUrl\<close>: the \<^verbatim>\<open>useState\<close> cells.
  \<^item> \<open>mediaRecorderRef\<close>, \<open>audioRef\<close>: the refs. A recorder is identified by the
    closure its \<^verbatim>\<open>onstop\<close> handler runs in.
  \<^item> \<open>startRecordingEnv\<close>: the render whose closure \<^verbatim>\<open>useCallback(..., [model])\<close>
    currently returns as \<^verbatim>\<open>startRecording\<close>.
  \<^item> \<open>pendingMic\<close>: the calls of \<^verbatim>\<open>startRecording\<close> that wait for \<^verbatim>\<open>getUserMedia\<close>, each
    with the render of its closure.
  \<^item> \<open>stopping\<close>: the recorders whose \<^verbatim>\<open>stop()\<close> was called and whose \<^verbatim>\<open>onstop\<close> has
    not run yet; \<open>analyzing\<close>: the \<^verbatim>\<open>processRecording\<close> calls waiting for their fetch.
  \<^item> \<open>exiting\<close>: the results view that \<^verbatim>\<open>AnimatePresence\<close> keeps on screen while it
    animates out, after its key \<^verbatim>\<open>currentIndex\<close> has changed.
  \<^item> \<open>requests\<close>: the requests posted to \<^verbatim>\<open>/api/analyze\<close>, in order.
  \<^item> \<open>urlOps\<close>, \<open>nextUrl\<close>: the log of handle operations and the next fresh URL.
  \<^item> \<open>sounding\<close>: the Audio elements of \<^verbatim>\<open>playPhoneme\<close> that are playing;
    \<open>speechQueue\<close>: the utterances given to \<^verbatim>\<open>speechSynthesis.speak\<close> and not yet
    ended (the head is being spoken).
  \<^item> \<open>alerts\<close>: calls of \<^verbatim>\<open>alert\<close>; \<open>rejections\<close>: handlers that ended in an
    uncaught exception.
\<close>

record app =
  currentIndex :: nat
  recordingState :: RecordingState
  results :: "PhonemeResult list option"
  rawPhonemes :: jsstring
  hoveredPhoneme :: "jsstring option"
  playingPhoneme :: "jsstring option"
  model :: ModelType
  recordedAudioUrl :: "nat option"
  mediaRecorderRef :: "render_env option"
  audioRef :: "nat option"
  startRecordingEnv :: render_env
  pendingMic :: "render_env list"
  stopping :: "render_env list"
  analyzing :: "render_env list"
  exiting :: "results_view option"
  requests :: "analyze_request list"
  urlOps :: "url_op list"
  nextUrl :: nat
  sounding :: "nat list"
  nextAudio :: nat
  speechQueue :: "utterance list"
  alerts :: nat
  rejections :: nat

definition init :: app where
  "init = \<lparr>currentIndex = 0, recordingState = Idle, results = None, rawPhonemes = [],
     hoveredPhoneme = None, playingPhoneme = None, model = Allosaurus,
     recordedAudioUrl = None, mediaRecorderRef = None, audioRef = None,
     startRecordingEnv = \<lparr>env_index = 0, env_model = Allosaurus\<rparr>,
     pendingMic = [], stopping = [], analyzing = [], exiting = None,
     requests = [], urlOps = [], nextUrl = 0,
     sounding = [], nextAudio = 0, speechQueue = [], alerts = 0, rejections = 0\<rparr>"

section \<open>The Substitution Heuristic and the fabricated comparison\<close>

definition substitutions_entries :: "(jsstring \<times> jsstring list) list" where
  "substitutions_entries = [
     (ipa_theta, [js ''t'', js ''s'', js ''f'']),
     (ipa_eth, [js ''d'', js ''z'', js ''v'']),
     (ipa_turned_r, [ipa_fishhook_r, js ''l'', js ''w'']),
     (ipa_ash, [ipa_open_e, js ''a'', js ''e'']),
     (ipa_turned_v, [js ''a'', ipa_schwa, js ''o'']),
     (js ''v'', [js ''w'', js ''b'', js ''f'']),
     (js ''w'', [js ''v'', js ''u''])]"

definition substitutions :: "jsstring \<Rightarrow> jsstring list lookup" where
  "substitutions = object_get substitutions_entries"

text \<open>
  \<^verbatim>\<open>subs[i]\<close> for a number \<open>i\<close>: outside the array the read gives \<^verbatim>\<open>undefined\<close>.
\<close>

definition array_get :: "'a list \<Rightarrow> int \<Rightarrow> 'a option" where
  "array_get xs i = (if 0 \<le> i \<and> i < int (length xs) then Some (xs ! nat i) else None)"

text \<open>
  \<^verbatim>\<open>getRandomSubstitution(phoneme)\<close>, reading the random values from position \<open>k\<close>
  on; it returns the result and the next position. The product
  \<^verbatim>\<open>Math.random() * subs.length\<close> is a double product, rounded before
  \<^verbatim>\<open>Math.floor\<close>. An inherited property is truthy: \<^verbatim>\<open>Math.random()\<close> is called, and
  the indexed read of a function or of the prototype object gives \<^verbatim>\<open>undefined\<close>.
\<close>

definition getRandomSubstitution :: "rng \<Rightarrow> nat \<Rightarrow> jsstring \<Rightarrow> jsstring option \<times> nat" where
  "getRandomSubstitution rnd k phoneme =
     (case substitutions phoneme of
        Own subs \<Rightarrow>
          (array_get subs (Math_floor (double_times (rnd k) (int (length subs)))), Suc k)
      | Inherited \<Rightarrow> (None, Suc k)
      | Missing \<Rightarrow> (Some phoneme, k))"

text \<open>
  The \<^verbatim>\<open>map\<close> callback of \<^verbatim>\<open>simulateResults\<close>, one phoneme after the other. The
  object literal evaluates \<^verbatim>\<open>actual\<close> before \<^verbatim>\<open>correct\<close>.
\<close>

fun simulate :: "rng \<Rightarrow> nat \<Rightarrow> jsstring list \<Rightarrow> PhonemeResult list" where
  "simulate rnd k [] = []"
| "simulate rnd k (p # ps) =
     (let (a, k1) = (if above_quarter (rnd k) then (Some p, Suc k)
                     else getRandomSubstitution rnd (Suc k) p)
      in \<lparr>expected = p, actual = a, correct = above_quarter (rnd k1)\<rparr> #
         simulate rnd (Suc k1) ps)"

text \<open>\<^verbatim>\<open>r.actual || r.expected\<close>: a missing or empty \<^verbatim>\<open>actual\<close> gives \<^verbatim>\<open>expected\<close>.\<close>

definition actual_or_expected :: "PhonemeResult \<Rightarrow> jsstring" where
  "actual_or_expected r =
     (case actual r of Some a \<Rightarrow> (if a \<noteq> [] then a else expected r) | None \<Rightarrow> expected r)"

datatype error = TypeError

text \<open>
  \<^verbatim>\<open>simulateResults\<close> in the closure of render \<open>env\<close>. With \<^verbatim>\<open>currentSentence\<close>
  undefined the read of \<^verbatim>\<open>.phonemes\<close> throws.
\<close>

definition simulateResults :: "render_env \<Rightarrow> rng \<Rightarrow> app \<Rightarrow> error + app" where
  "simulateResults env rnd w =
     (case currentSentence (env_index env) of
        None \<Rightarrow> Inl TypeError
      | Some s \<Rightarrow>
          (let simulated = simulate rnd 0 (phonemes s)
           in Inr (w\<lparr>results := Some simulated,
                     rawPhonemes := join (js '' '') (map actual_or_expected simulated),
                     recordingState := Results\<rparr>)))"

text \<open>
  \<^verbatim>\<open>data.raw || data.phonemes.join(' ')\<close>: None when \<^verbatim>\<open>raw\<close> is missing or empty and
  \<^verbatim>\<open>phonemes\<close> is missing, where the source throws.
\<close>

definition raw_text :: "analyze_response \<Rightarrow> jsstring option" where
  "raw_text data =
     (case raw data of
        Some t \<Rightarrow> (if t \<noteq> [] then Some t else map_option (join (js '' '')) (phonemes_heard data))
      | None \<Rightarrow> map_option (join (js '' '')) (phonemes_heard data))"

text \<open>
  \<^verbatim>\<open>processRecording\<close> in the closure of render \<open>env\<close>, given what its awaited
  fetch does. Building the form data reads \<^verbatim>\<open>currentSentence.phonemes\<close>; every
  exception of the \<^verbatim>\<open>try\<close> block ends in \<^verbatim>\<open>simulateResults\<close>. The state updates of
  one continuation are applied together.
\<close>

definition processRecording :: "render_env \<Rightarrow> analyze_outcome \<Rightarrow> rng \<Rightarrow> app \<Rightarrow> error + app" where
  "processRecording env outcome rnd w =
     (case currentSentence (env_index env) of
        None \<Rightarrow> simulateResults env rnd w
      | Some s \<Rightarrow>
          (case outcome of
             AnalyzeOk data \<Rightarrow>
               (case raw_text data of
                  Some t \<Rightarrow> Inr (w\<lparr>results := Some (comparison data), rawPhonemes := t,
                                    recordingState := Results\<rparr>)
                | None \<Rightarrow> simulateResults env rnd (w\<lparr>results := Some (comparison data)\<rparr>))
           | _ \<Rightarrow> simulateResults env rnd w))"

section \<open>Recording\<close>

text \<open>
  \<^verbatim>\<open>startRecording\<close> in the closure of render \<open>env\<close>, from the answer of
  \<^verbatim>\<open>getUserMedia\<close> on: nothing before the \<^verbatim>\<open>await\<close> changes the state, and nothing
  after it reads \<^verbatim>\<open>recordingState\<close>. The recorder's \<^verbatim>\<open>onstop\<close> handler calls the
  \<^verbatim>\<open>processRecording\<close> of the same render. A refusal is caught and reported with
  \<^verbatim>\<open>alert\<close>.
\<close>

definition startRecording :: "render_env \<Rightarrow> bool \<Rightarrow> app \<Rightarrow> app" where
  "startRecording env granted w =
     (if granted
      then w\<lparr>mediaRecorderRef := Some env, recordingState := Recording\<rparr>
      else w\<lparr>alerts := Suc (alerts w)\<rparr>)"

definition stopRecording :: "app \<Rightarrow> app" where
  "stopRecording w =
     (case mediaRecorderRef w of
        Some r \<Rightarrow> (if recordingState w = Recording
                   then w\<lparr>stopping := stopping w @ [r], recordingState := Processing\<rparr>
                   else w)
      | None \<Rightarrow> w)"

text \<open>
  The \<^verbatim>\<open>onstop\<close> handler up to the fetch of \<^verbatim>\<open>processRecording\<close>: it creates the
  object URL of the recording, stores it, and posts the request with the expected
  phonemes and the model of its closure. With \<^verbatim>\<open>currentSentence\<close> undefined
  \<^verbatim>\<open>processRecording\<close> throws before the fetch, and again in \<^verbatim>\<open>simulateResults\<close>.
\<close>

definition onstop :: "render_env \<Rightarrow> app \<Rightarrow> app" where
  "onstop env w =
     (let w1 = w\<lparr>recordedAudioUrl := Some (nextUrl w),
                  urlOps := urlOps w @
                    [CreateObjectURL (nextUrl w), SetRecordedAudioUrl (Some (nextUrl w))],
                  nextUrl := Suc (nextUrl w)\<rparr>
      in case currentSentence (env_index env) of
           Some s \<Rightarrow>
             w1\<lparr>requests := requests w1 @
                    [\<lparr>req_expected = phonemes s, req_model = env_model env\<rparr>],
                  analyzing := analyzing w1 @ [env]\<rparr>
         | None \<Rightarrow> w1\<lparr>rejections := Suc (rejections w1)\<rparr>)"

text \<open>
  \<^verbatim>\<open>setModel(m)\<close>. A render with a new \<^verbatim>\<open>model\<close> makes \<^verbatim>\<open>useCallback(..., [model])\<close>
  keep the closure of that render; a render with the same \<^verbatim>\<open>model\<close> returns the
  closure kept before.
\<close>

definition setModel :: "ModelType \<Rightarrow> app \<Rightarrow> app" where
  "setModel m w =
     (if m = model w then w
      else w\<lparr>model := m, startRecordingEnv := \<lparr>env_index = currentIndex w, env_model = m\<rparr>\<rparr>)"

section \<open>Next and Try Again\<close>

definition revokeRecorded :: "app \<Rightarrow> app" where
  "revokeRecorded w =
     (case recordedAudioUrl w of
        Some u \<Rightarrow> w\<lparr>urlOps := urlOps w @ [RevokeObjectURL u]\<rparr>
      | None \<Rightarrow> w)"

definition nextSentence :: "app \<Rightarrow> app" where
  "nextSentence w =
     (let w1 = revokeRecorded w
      in w1\<lparr>recordedAudioUrl := None,
            urlOps := urlOps w1 @ [SetRecordedAudioUrl None],
            currentIndex := (currentIndex w1 + 1) mod length sentenceList,
            recordingState := Idle,
            results := None,
            rawPhonemes := [],
            hoveredPhoneme := None\<rparr>)"

definition resetSentence :: "app \<Rightarrow> app" where
  "resetSentence w =
     (let w1 = revokeRecorded w
      in w1\<lparr>recordedAudioUrl := None,
            urlOps := urlOps w1 @ [SetRecordedAudioUrl None],
            recordingState := Idle,
            results := None,
            rawPhonemes := [],
            hoveredPhoneme := None\<rparr>)"

section \<open>Phoneme playback\<close>

text \<open>
  The part of \<^verbatim>\<open>playPhoneme\<close> after the \<^verbatim>\<open>try\<close> block: speech synthesis of the
  example word, or nothing but the cleared marker. An inherited property is truthy
  and has no \<^verbatim>\<open>example\<close>: \<^verbatim>\<open>info.example.split\<close> throws a TypeError that nothing
  catches, and the marker stays.
\<close>

definition speakExample :: "jsstring \<Rightarrow> app \<Rightarrow> app" where
  "speakExample phoneme w =
     (case phonemeInfo phoneme of
        Own info \<Rightarrow>
          w\<lparr>speechQueue := speechQueue w @
              [\<lparr>utt_text = trim (hd (split_at 0x2C (example info))), utt_rate = 7 / 10\<rparr>]\<rparr>
      | Inherited \<Rightarrow> w\<lparr>rejections := Suc (rejections w)\<rparr>
      | Missing \<Rightarrow> w\<lparr>playingPhoneme := None\<rparr>)"

text \<open>\<^verbatim>\<open>if (audioRef.current) audioRef.current.pause()\<close>.\<close>

definition pauseCurrent :: "app \<Rightarrow> app" where
  "pauseCurrent w =
     (case audioRef w of
        Some a \<Rightarrow> w\<lparr>sounding := removeAll a (sounding w)\<rparr>
      | None \<Rightarrow> w)"

definition playPhoneme :: "jsstring \<Rightarrow> speak_outcome \<Rightarrow> app \<Rightarrow> app" where
  "playPhoneme phoneme outcome w0 =
     (let w = w0\<lparr>playingPhoneme := Some phoneme\<rparr>
      in case outcome of
           SpeakPlayed \<Rightarrow>
             (let w1 = pauseCurrent w
              in w1\<lparr>audioRef := Some (nextAudio w1),
                    sounding := nextAudio w1 # sounding w1,
                    nextAudio := Suc (nextAudio w1)\<rparr>)
         | SpeakPlayRejected \<Rightarrow>
             (let w1 = pauseCurrent w
              in speakExample phoneme
                   (w1\<lparr>audioRef := Some (nextAudio w1), nextAudio := Suc (nextAudio w1)\<rparr>))
         | _ \<Rightarrow> speakExample phoneme w)"

text \<open>The \<^verbatim>\<open>onended\<close> handler of an Audio element and the \<^verbatim>\<open>onend\<close> handler of an utterance.\<close>

definition audioEnded :: "nat \<Rightarrow> app \<Rightarrow> app" where
  "audioEnded a w =
     (if a \<in> set (sounding w)
      then w\<lparr>sounding := removeAll a (sounding w), playingPhoneme := None\<rparr>
      else w)"

definition utteranceEnded :: "app \<Rightarrow> app" where
  "utteranceEnded w =
     (case speechQueue w of
        [] \<Rightarrow> w
      | u # us \<Rightarrow> w\<lparr>speechQueue := us, playingPhoneme := None\<rparr>)"

text \<open>The number of phoneme sounds that are audible: playing Audio elements and the utterance being spoken.\<close>

definition audible :: "app \<Rightarrow> nat" where
  "audible w = length (sounding w) + (if speechQueue w = [] then 0 else 1)"

section \<open>The session lifecycle\<close>

text \<open>
  What can happen to the component: the user's actions on the controls that are on
  screen, and the completions of the asynchronous steps, each an event of its own. A
  tap on the record button only starts \<^verbatim>\<open>getUserMedia\<close>; its answer comes later, and other
  events may come before it. A click on a phoneme comes with what the requests of
  \<^verbatim>\<open>playPhoneme\<close> do. The state updates of one continuation are applied together.
  Replay of the recording is left out: it reads \<^verbatim>\<open>recordedAudioUrl\<close> and writes only
  its own ref.
\<close>

datatype event =
  SetModel ModelType
| TapRecord
| MicAnswered nat bool
| TapStop
| RecorderStopped nat
| AnalyzeResolved nat analyze_outcome rng
| TryAgain
| Next
| ClickActual nat speak_outcome
| ClickExpected nat speak_outcome
| HoverActual nat
| HoverExpected nat
| Unhover
| AudioEnded nat
| UtteranceEnded
| ExitFinished

text \<open>\<^verbatim>\<open>xs\<close> without its element at position \<open>i\<close>.\<close>

definition remove_nth :: "nat \<Rightarrow> 'a list \<Rightarrow> 'a list" where
  "remove_nth i xs = take i xs @ drop (Suc i) xs"

text \<open>
  The results view on screen. The sentence block is the child of
  \<^verbatim>\<open>AnimatePresence mode="wait"\<close> with the key \<^verbatim>\<open>currentIndex\<close>: when the key changes,
  the block of the last render with the old key stays on screen, with the handlers of
  that render, until its exit animation has finished, and the block of the new key is
  not shown before. Otherwise the rows of phoneme buttons and the two action buttons
  are rendered under \<^verbatim>\<open>recordingState === 'results' && results\<close>.
\<close>

definition screen_view :: "app \<Rightarrow> results_view option" where
  "screen_view w =
     (case exiting w of
        Some v \<Rightarrow> Some v
      | None \<Rightarrow>
          (case results w of
             Some rs \<Rightarrow>
               (if recordingState w = Results
                then Some \<lparr>view_url = recordedAudioUrl w, view_results = rs\<rparr>
                else None)
           | None \<Rightarrow> None))"

definition shown_results :: "app \<Rightarrow> PhonemeResult list" where
  "shown_results w = (case screen_view w of Some v \<Rightarrow> view_results v | None \<Rightarrow> [])"

text \<open>
  The record button is rendered unless the state is \<^verbatim>\<open>results\<close>, is disabled while
  \<^verbatim>\<open>processing\<close>, and calls \<^verbatim>\<open>stopRecording\<close> while \<^verbatim>\<open>recording\<close> and
  \<^verbatim>\<open>startRecording\<close> otherwise.
\<close>

definition record_button :: "app \<Rightarrow> bool" where
  "record_button w \<longleftrightarrow> exiting w = None \<and> recordingState w \<noteq> Results"

text \<open>
  An event that the screen does not offer changes nothing. \<^verbatim>\<open>nextSentence\<close> and
  \<^verbatim>\<open>resetSentence\<close> read \<^verbatim>\<open>recordedAudioUrl\<close> in the render of the view whose button is
  clicked; all their other accesses are setters.
\<close>

fun step :: "event \<Rightarrow> app \<Rightarrow> app" where
  "step (SetModel m) w = setModel m w"
| "step TapRecord w =
     (if record_button w \<and> recordingState w = Idle
      then w\<lparr>pendingMic := pendingMic w @ [startRecordingEnv w]\<rparr>
      else w)"
| "step (MicAnswered i granted) w =
     (if i < length (pendingMic w)
      then startRecording (pendingMic w ! i) granted
             (w\<lparr>pendingMic := remove_nth i (pendingMic w)\<rparr>)
      else w)"
| "step TapStop w =
     (if record_button w \<and> recordingState w = Recording then stopRecording w else w)"
| "step (RecorderStopped i) w =
     (if i < length (stopping w)
      then onstop (stopping w ! i) (w\<lparr>stopping := remove_nth i (stopping w)\<rparr>)
      else w)"
| "step (AnalyzeResolved i outcome rnd) w =
     (if i < length (analyzing w)
      then (case processRecording (analyzing w ! i) outcome rnd
                   (w\<lparr>analyzing := remove_nth i (analyzing w)\<rparr>) of
              Inr w' \<Rightarrow> w'
            | Inl e \<Rightarrow> w\<lparr>analyzing := remove_nth i (analyzing w),
                          rejections := Suc (rejections w)\<rparr>)
      else w)"
| "step TryAgain w =
     (case screen_view w of
        Some v \<Rightarrow> resetSentence (w\<lparr>recordedAudioUrl := view_url v\<rparr>)
      | None \<Rightarrow> w)"
| "step Next w =
     (case screen_view w of
        Some v \<Rightarrow> (nextSentence (w\<lparr>recordedAudioUrl := view_url v\<rparr>))\<lparr>exiting := Some v\<rparr>
      | None \<Rightarrow> w)"
| "step (ClickActual i outcome) w =
     (if i < length (shown_results w)
      then (case actual (shown_results w ! i) of
              Some a \<Rightarrow> (if a \<noteq> [] then playPhoneme a outcome w else w)
            | None \<Rightarrow> w)
      else w)"
| "step (ClickExpected i outcome) w =
     (if i < length (shown_results w)
      then playPhoneme (expected (shown_results w ! i)) outcome w
      else w)"
| "step (HoverActual i) w =
     (if i < length (shown_results w)
      then w\<lparr>hoveredPhoneme := Some (actual_or_expected (shown_results w ! i))\<rparr>
      else w)"
| "step (HoverExpected i) w =
     (if i < length (shown_results w)
      then w\<lparr>hoveredPhoneme := Some (expected (shown_results w ! i))\<rparr>
      else w)"
| "step Unhover w =
     (case screen_view w of Some v \<Rightarrow> w\<lparr>hoveredPhoneme := None\<rparr> | None \<Rightarrow> w)"
| "step (AudioEnded a) w = audioEnded a w"
| "step UtteranceEnded w = utteranceEnded w"
| "step ExitFinished w = w\<lparr>exiting := None\<rparr>"

text \<open>A run applies the events from left to right.\<close>

fun run :: "event list \<Rightarrow> app \<Rightarrow> app" where
  "run [] w = w"
| "run (e # es) w = run es (step e w)"

inductive reachable :: "app \<Rightarrow> bool" where
  reachable_init: "reachable init"
| reachable_step: "reachable w \<Longrightarrow> reachable (step e w)"

section \<open>The score\<close>

text \<open>
  \<^verbatim>\<open>(c / n) * 100\<close> rounded by \<^verbatim>\<open>Math.round\<close>, for the lengths \<open>c\<close> and \<open>n\<close>.
\<close>

definition score_of_counts :: "nat \<Rightarrow> nat \<Rightarrow> int" where
  "score_of_counts c n = Math_round (double_times (to_double (int c) (int n)) 100)"

text \<open>
  \<^verbatim>\<open>score\<close>; None is \<^verbatim>\<open>NaN\<close>, which the division \<^verbatim>\<open>0 / 0\<close> of an empty array
  gives (an empty array is truthy).
\<close>

definition score :: "PhonemeResult list option \<Rightarrow> int option" where
  "score res =
     (case res of
        None \<Rightarrow> Some 0
      | Some rs \<Rightarrow>
          (if rs = [] then None
           else Some (score_of_counts (length (filter correct rs)) (length rs))))"

text \<open>
  Row \<open>n\<close> of the score table: for every number \<open>c \<le> n\<close> of correct entries among
  \<open>n\<close>, the score is \<open>100 * c / n\<close> rounded to the nearest integer, a half going up.
\<close>

definition table_row :: "nat \<Rightarrow> bool" where
  "table_row n \<longleftrightarrow>
     list_all (\<lambda>c. score_of_counts c n = (200 * int c + int n) div (2 * int n)) [0..<Suc n]"

text \<open>
  The formula of the specification, \<open>round(100 * correctCount / total)\<close>, in the same
  double arithmetic: the product \<open>100 * c\<close> is exact, and the quotient is rounded once.
\<close>

definition percent_of_counts :: "nat \<Rightarrow> nat \<Rightarrow> int" where
  "percent_of_counts c n = Math_round (to_double (100 * int c) (int n))"


definition percent_row :: "nat \<Rightarrow> bool" where
  "percent_row n \<longleftrightarrow>
     list_all (\<lambda>c. percent_of_counts c n = (200 * int c + int n) div (2 * int n)) [0..<Suc n]"

section \<open>Concrete sessions\<close>

text \<open>A \<^verbatim>\<open>Math.random\<close> that returns 0.5 at every call.\<close>

definition steady :: rng where
  "steady = (\<lambda>_. (1, - 1))"

text \<open>
  One attempt with the backend unreachable: tap record, the microphone is granted,
  tap stop, the recorder stops, the fetch of \<^verbatim>\<open>/api/analyze\<close> rejects.
\<close>

definition offline_attempt :: "event list" where
  "offline_attempt =
     [TapRecord, MicAnswered 0 True, TapStop, RecorderStopped 0,
      AnalyzeResolved 0 AnalyzeFetchRejected steady]"

text \<open>
  An attempt on the first sentence, Next, the end of the exit animation, and an
  attempt on the second sentence.
\<close>

definition two_attempts :: "event list" where
  "two_attempts = offline_attempt @ [Next, ExitFinished] @ offline_attempt"

text \<open>
  After an attempt, a click on the first expected phoneme whose audio arrives and
  plays, then a click on the second expected phoneme whose request is answered with
  an error status.
\<close>

definition two_clicks :: "event list" where
  "two_clicks = offline_attempt @ [ClickExpected 0 SpeakPlayed, ClickExpected 1 SpeakNotOk]"

text \<open>
  Two taps on the record button before the first answer of \<^verbatim>\<open>getUserMedia\<close>. The first
  call is granted and the attempt runs to its results; then the second call is
  granted.
\<close>

definition late_answer :: "event list" where
  "late_answer =
     [TapRecord, TapRecord, MicAnswered 0 True, TapStop, RecorderStopped 0,
      AnalyzeResolved 0 AnalyzeFetchRejected steady, MicAnswered 0 True]"

text \<open>After an attempt, two clicks on Next, the second while the results view animates out.\<close>

definition double_next :: "event list" where
  "double_next = offline_attempt @ [Next, Next]"

text \<open>
  An attempt that the backend answers with a comparison whose first \<^verbatim>\<open>actual\<close> is the
  string constructor; then a click on that entry, with \<^verbatim>\<open>/api/speak\<close> answering with an
  error status.
\<close>

definition odd_comparison :: "PhonemeResult list" where
  "odd_comparison =
     \<lparr>expected = ipa_eth, actual = Some (js ''constructor''), correct = False\<rparr> #
     map (\<lambda>p. \<lparr>expected = p, actual = Some p, correct = True\<rparr>) (tl (phonemes (sentenceList ! 0)))"

definition odd_click :: "event list" where
  "odd_click =
     [TapRecord, MicAnswered 0 True, TapStop, RecorderStopped 0,
      AnalyzeResolved 0
        (AnalyzeOk \<lparr>comparison = odd_comparison, raw = Some (js ''constructor''),
                    phonemes_heard = None\<rparr>) steady,
      ClickActual 0 SpeakNotOk]"

text \<open>A comparison of 40 entries, 23 of them correct.\<close>

definition forty_entries :: "PhonemeResult list" where
  "forty_entries =
     replicate 23 \<lparr>expected = js ''a'', actual = Some (js ''a''), correct = True\<rparr> @
     replicate 17 \<lparr>expected = js ''a'', actual = Some (js ''o''), correct = False\<rparr>"

section \<open>Invariants of the lifecycle\<close>

text \<open>Every sentence index in the state and in a closure is an index of the list.\<close>

definition index_ok :: "app \<Rightarrow> bool" where
  "index_ok w \<longleftrightarrow>
     currentIndex w < length sentenceList \<and>
     env_index (startRecordingEnv w) < length sentenceList \<and>
     (\<forall>env \<in> set_option (mediaRecorderRef w) \<union> set (pendingMic w) \<union> set (stopping w) \<union>
               set (analyzing w). env_index env < length sentenceList)"

text \<open>An Audio element of \<^verbatim>\<open>playPhoneme\<close> that is playing is the one in \<^verbatim>\<open>audioRef\<close>.\<close>

definition audio_ok :: "app \<Rightarrow> bool" where
  "audio_ok w \<longleftrightarrow> set (sounding w) \<subseteq> set_option (audioRef w)"

text \<open>In the state results a comparison is stored.\<close>

definition comparison_shown :: "app \<Rightarrow> bool" where
  "comparison_shown w \<longleftrightarrow> recordingState w \<noteq> Results \<or> results w \<noteq> None"

section \<open>Basic facts\<close>

lemma length_sentenceList: "length sentenceList = 12"
  by (simp add: sentenceList_def)

lemma split_at_not_Nil: "split_at sep s \<noteq> []"
  by (induction s) (auto split: list.splits)

lemma hd_split_at: "hd (split_at sep s) = takeWhile (\<lambda>c. c \<noteq> sep) s"
  by (induction s) (auto split: list.splits simp: split_at_not_Nil)

lemma length_simulate: "length (simulate rnd k ps) = length ps"
  by (induction ps arbitrary: k) (simp_all add: Let_def split: prod.splits)

lemma map_expected_simulate: "map expected (simulate rnd k ps) = ps"
  by (induction ps arbitrary: k) (simp_all add: Let_def split: prod.splits)

lemma steady_draw: "unit_double (steady k)" "above_quarter (steady k)"
  by (simp_all add: steady_def unit_double_def above_quarter_def)

lemma simulate_steady: "simulate steady k ps = map (\<lambda>p. \<lparr>expected = p, actual = Some p, correct = True\<rparr>) ps"
  by (induction ps arbitrary: k) (simp_all add: steady_draw)

lemma substitutions_Own: "substitutions p = Own subs \<longleftrightarrow> map_of substitutions_entries p = Some subs"
  by (simp add: substitutions_def object_get_def split: option.splits)

lemma substitutions_not_Nil: "substitutions p = Own subs \<Longrightarrow> subs \<noteq> []"
proof -
  assume "substitutions p = Own subs"
  then have "(p, subs) \<in> set substitutions_entries"
    by (simp add: substitutions_Own map_of_SomeD)
  then show ?thesis by (auto simp: substitutions_entries_def)
qed

subsection \<open>The rounded product of a random value and a length\<close>

text \<open>
  The product \<^verbatim>\<open>Math.random() * subs.length\<close> is rounded to a double before
  \<^verbatim>\<open>Math.floor\<close>. The largest value below 1 is \<open>1 - 2 ^ -53\<close>, and rounding adds at most
  the fraction \<open>2 ^ -53\<close> of the exact product: the rounded product stays below the
  length, and its floor is an index of the array.
\<close>

lemma bitlen_bounds: "0 < n \<Longrightarrow> 2 ^ (bitlen n - 1) \<le> n \<and> n < 2 ^ bitlen n"
proof (induction n rule: bitlen.induct)
  case (1 n)
  show ?case
  proof (cases "n = 1")
    case True
    then show ?thesis by (simp add: bitlen.simps [of 1] bitlen.simps [of 0])
  next
    case False
    with "1.prems" have h: "0 < n div 2" by simp
    from "1.IH" "1.prems" h have ih: "2 ^ (bitlen (n div 2) - 1) \<le> n div 2" "n div 2 < 2 ^ bitlen (n div 2)"
      by simp_all
    have b: "bitlen n = Suc (bitlen (n div 2))" using "1.prems" by (subst bitlen.simps) simp
    have pos: "0 < bitlen (n div 2)" using h by (subst bitlen.simps) simp
    then have e: "(2::int) ^ bitlen (n div 2) = 2 * 2 ^ (bitlen (n div 2) - 1)"
      by (cases "bitlen (n div 2)") simp_all
    from ih e show ?thesis unfolding b by simp linarith
  qed
qed

lemma rhe_bound:
  assumes "0 \<le> N" and "0 < D"
  shows "0 \<le> round_half_even N D"
    and "real_of_int (round_half_even N D) \<le> real_of_int N / real_of_int D + 1 / 2"
proof -
  define m where "m = N div D"
  define r where "r = N mod D"
  have N: "N = m * D + r" by (simp add: m_def r_def)
  have r: "0 \<le> r" "r < D" using assms by (simp_all add: r_def)
  have m: "0 \<le> m" using assms by (simp add: m_def pos_imp_zdiv_nonneg_iff)
  have q: "real_of_int N / real_of_int D = real_of_int m + real_of_int r / real_of_int D"
    using assms by (simp add: N field_simps)
  have rhe: "round_half_even N D = (if 2 * r < D then m else if D < 2 * r then m + 1
      else if even m then m else m + 1)"
    by (simp add: round_half_even_def m_def r_def Let_def)
  show "0 \<le> round_half_even N D" using m by (simp add: rhe)
  have half: "D \<le> 2 * r \<Longrightarrow> 1 / 2 \<le> real_of_int r / real_of_int D"
    using assms by (simp add: field_simps)
  have nonneg: "0 \<le> real_of_int r / real_of_int D" using r assms by simp
  show "real_of_int (round_half_even N D) \<le> real_of_int N / real_of_int D + 1 / 2"
  proof (cases "2 * r < D")
    case True
    then show ?thesis using nonneg by (simp add: rhe q)
  next
    case False
    then have "D \<le> 2 * r" by simp
    from half [OF this] have h: "1 / 2 \<le> real_of_int r / real_of_int D" .
    have "real_of_int (m + 1) = real_of_int m + 1" by simp
    with h have "real_of_int (m + 1) \<le> real_of_int m + real_of_int r / real_of_int D + 1 / 2"
      by linarith
    moreover have "round_half_even N D \<le> m + 1" by (simp add: rhe)
    ultimately show ?thesis unfolding q
      by (smt (verit) of_int_le_iff)
  qed
qed

lemma Math_floor_value: "Math_floor x = \<lfloor>value_of x\<rfloor>"
proof (cases x)
  case (Pair m s)
  show ?thesis
  proof (cases "0 \<le> s")
    case True
    then have "value_of x = real_of_int (m * 2 ^ nat s)"
      by (simp add: value_of_def Pair power_int_def)
    then show ?thesis using True by (simp add: Math_floor_def Pair del: of_int_mult of_int_power)
  next
    case False
    then have "value_of x = real_of_int m / real_of_int (2 ^ nat (- s))"
      by (simp add: value_of_def Pair power_int_def field_simps)
    then show ?thesis using False
      by (simp add: Math_floor_def Pair floor_divide_of_int_eq del: of_int_power)
  qed
qed

lemma powi_nat_diff: "(2::real) powi (int a - int b) = 2 ^ a / 2 ^ b"
  by (simp add: power_int_diff)

lemma binade_lower:
  assumes "0 < p" and "0 < q"
  shows "2 powi (binade p q) \<le> real_of_int p / real_of_int q"
proof -
  define d where "d = int (bitlen p) - int (bitlen q)"
  from bitlen_bounds [OF assms(1)] have p: "2 ^ (bitlen p - 1) \<le> p" by simp
  from bitlen_bounds [OF assms(2)] have q: "q < 2 ^ bitlen q" by simp
  have bp: "0 < bitlen p" using assms(1) by (subst bitlen.simps) simp
  have low: "2 powi (d - 1) \<le> real_of_int p / real_of_int q"
  proof -
    have 1: "(2::real) ^ (bitlen p - 1) \<le> real_of_int p"
      using p by (metis of_int_le_iff of_int_numeral of_int_power)
    have 2: "real_of_int q \<le> 2 ^ bitlen q"
      using q by (metis less_imp_le of_int_le_iff of_int_numeral of_int_power)
    have "d - 1 = int (bitlen p - 1) - int (bitlen q)" using bp by (simp add: d_def)
    then have "2 powi (d - 1) = (2::real) ^ (bitlen p - 1) / 2 ^ bitlen q"
      by (simp only: powi_nat_diff)
    also have "\<dots> \<le> real_of_int p / real_of_int q"
      using 1 2 assms by (intro frac_le) simp_all
    finally show ?thesis .
  qed
  define t where "t \<longleftrightarrow> (if 0 \<le> d then q * 2 ^ nat d \<le> p else q \<le> p * 2 ^ nat (- d))"
  have bd: "binade p q = (if t then d else d - 1)"
    by (simp add: binade_def d_def t_def Let_def)
  show ?thesis
  proof (cases t)
    case False
    then have "binade p q = d - 1" by (simp add: bd)
    with low show ?thesis by simp
  next
    case t: True
    then have b: "binade p q = d" by (simp add: bd)
    from t have True: "if 0 \<le> d then q * 2 ^ nat d \<le> p else q \<le> p * 2 ^ nat (- d)"
      by (simp add: t_def)
    show ?thesis
    proof (cases "0 \<le> d")
      case d: True
      with True have "real_of_int (q * 2 ^ nat d) \<le> real_of_int p" by (simp del: of_int_mult)
      then have "2 ^ nat d \<le> real_of_int p / real_of_int q"
        using assms by (simp add: field_simps)
      with d show ?thesis by (simp add: b power_int_def)
    next
      case d: False
      with True have "real_of_int q \<le> real_of_int (p * 2 ^ nat (- d))" by (simp del: of_int_mult)
      then have "1 / 2 ^ nat (- d) \<le> real_of_int p / real_of_int q"
        using assms by (simp add: field_simps)
      with d show ?thesis by (simp add: b power_int_def field_simps)
    qed
  qed
qed

lemma to_double_bound:
  assumes "0 < p" and "0 < q"
  shows "0 \<le> fst (to_double p q)"
    and "value_of (to_double p q) \<le> real_of_int p / real_of_int q + 2 powi (binade p q) / 2 ^ 53"
proof -
  define S where "S = binade p q - 52"
  have e: "2 powi (binade p q) / 2 ^ 53 = (2::real) powi S / 2"
  proof -
    have "binade p q = S + 52" by (simp add: S_def)
    then have "(2::real) powi (binade p q) = 2 powi S * 2 ^ 52"
      by (simp add: power_int_add)
    then show ?thesis by simp
  qed
  show "0 \<le> fst (to_double p q)"
    using assms rhe_bound(1) by (simp add: to_double_def Let_def)
  show "value_of (to_double p q) \<le> real_of_int p / real_of_int q + 2 powi (binade p q) / 2 ^ 53"
  proof (cases "0 \<le> S")
    case True
    define T :: int where "T = 2 ^ nat S"
    have T: "0 < T" "real_of_int T = 2 powi S" using True by (simp_all add: T_def power_int_def)
    have td: "to_double p q = (round_half_even p (q * T), S)"
      using assms True by (simp add: to_double_def S_def T_def Let_def)
    from rhe_bound(2) [of p "q * T"] assms T(1)
    have "real_of_int (round_half_even p (q * T)) \<le> real_of_int p / (real_of_int q * real_of_int T) + 1 / 2"
      by simp
    then have "real_of_int (round_half_even p (q * T)) * real_of_int T \<le>
        (real_of_int p / (real_of_int q * real_of_int T) + 1 / 2) * real_of_int T"
      using T(1) by (intro mult_right_mono) simp_all
    also have "\<dots> = real_of_int p / real_of_int q + real_of_int T / 2"
      using T(1) assms by (simp add: field_simps)
    finally have "real_of_int (round_half_even p (q * T)) * 2 powi S \<le>
        real_of_int p / real_of_int q + 2 powi S / 2" by (simp add: T(2))
    then show ?thesis unfolding e by (simp add: td value_of_def)
  next
    case False
    define T :: int where "T = 2 ^ nat (- S)"
    have T: "0 < T" "1 / real_of_int T = 2 powi S" using False
      by (simp_all add: T_def power_int_def field_simps)
    have td: "to_double p q = (round_half_even (p * T) q, S)"
      using assms False by (simp add: to_double_def S_def T_def Let_def)
    from rhe_bound(2) [of "p * T" q] assms T(1)
    have "real_of_int (round_half_even (p * T) q) \<le> real_of_int p * real_of_int T / real_of_int q + 1 / 2"
      by simp
    then have "real_of_int (round_half_even (p * T) q) * (1 / real_of_int T) \<le>
        (real_of_int p * real_of_int T / real_of_int q + 1 / 2) * (1 / real_of_int T)"
      using T(1) by (intro mult_right_mono) simp_all
    also have "\<dots> = real_of_int p / real_of_int q + (1 / real_of_int T) / 2"
      using T(1) assms by (simp add: field_simps)
    finally have "real_of_int (round_half_even (p * T) q) * 2 powi S \<le>
        real_of_int p / real_of_int q + 2 powi S / 2" by (simp add: T(2))
    then show ?thesis unfolding e by (simp add: td value_of_def)
  qed
qed

lemma unit_double_bound:
  assumes "0 \<le> m" and "m < 2 ^ 53" and "m < 2 ^ k"
  shows "real_of_int m / 2 ^ k \<le> 1 - 1 / 2 ^ 53"
proof (cases "k \<le> 53")
  case True
  from assms(3) have "m + 1 \<le> 2 ^ k" by simp
  then have "real_of_int (m + 1) \<le> 2 ^ k"
    by (metis of_int_le_iff of_int_numeral of_int_power)
  then have "real_of_int m / 2 ^ k \<le> 1 - 1 / 2 ^ k" by (simp add: field_simps)
  moreover have "(2::real) ^ k \<le> 2 ^ 53" using True by (intro power_increasing) simp_all
  then have "1 / (2::real) ^ 53 \<le> 1 / 2 ^ k" by (intro divide_left_mono) simp_all
  ultimately show ?thesis by linarith
next
  case False
  then have "54 \<le> k" by simp
  then have "(2::real) ^ 54 \<le> 2 ^ k" by (intro power_increasing) simp_all
  moreover from assms(2) have "real_of_int m \<le> 2 ^ 53"
    by (metis less_imp_le of_int_le_iff of_int_numeral of_int_power)
  ultimately have "real_of_int m / 2 ^ k \<le> 2 ^ 53 / 2 ^ 54"
    using assms(1) by (intro frac_le) simp_all
  moreover have "(2::real) ^ 53 / 2 ^ 54 \<le> 1 - 1 / 2 ^ 53" by simp
  ultimately show ?thesis by linarith
qed

lemma double_times_range:
  assumes "unit_double r" and "0 < n"
  shows "0 \<le> value_of (double_times r n)" and "value_of (double_times r n) < real_of_int n"
proof -
  obtain m s where r: "r = (m, s)" by (cases r)
  from assms(1) have u: "0 \<le> m" "m < 2 ^ 53" "s \<le> 0" "m < 2 ^ nat (- s)"
    by (simp_all add: unit_double_def r)
  have "0 \<le> value_of (double_times r n) \<and> value_of (double_times r n) < real_of_int n"
  proof (cases "m = 0")
    case True
    then show ?thesis using assms(2) by (simp add: double_times_def r to_double_def value_of_def)
  next
    case False
    with u have m: "0 < m" and s: "s < 0" by (auto simp: less_le)
    define k where "k = nat (- s)"
    define p where "p = m * n"
    define q :: int where "q = 2 ^ k"
    have pq: "0 < p" "0 < q" using m assms(2) by (simp_all add: p_def q_def)
    have dt: "double_times r n = to_double p q"
      using s by (simp add: double_times_def r p_def q_def k_def)
    define x where "x = real_of_int p / real_of_int q"
    have x: "x = real_of_int n * (real_of_int m / 2 ^ k)" by (simp add: x_def p_def q_def)
    from unit_double_bound [OF u(1,2)] u(4) have "real_of_int m / 2 ^ k \<le> 1 - 1 / 2 ^ 53"
      by (simp add: k_def)
    with assms(2) have xb: "x \<le> real_of_int n * (1 - 1 / 2 ^ 53)"
      unfolding x by (intro mult_left_mono) simp_all
    have x0: "0 < x" using pq by (simp add: x_def)
    from to_double_bound(2) [OF pq] binade_lower [OF pq]
    have "value_of (to_double p q) \<le> x + x / 2 ^ 53"
      unfolding x_def [symmetric] by (simp add: field_simps)
    also have "\<dots> = x * (1 + 1 / 2 ^ 53)" by (simp add: field_simps)
    also have "\<dots> \<le> real_of_int n * (1 - 1 / 2 ^ 53) * (1 + 1 / 2 ^ 53)"
      using xb by (intro mult_right_mono) simp_all
    also have "\<dots> < real_of_int n" using assms(2) by (simp add: field_simps)
    finally have up: "value_of (to_double p q) < real_of_int n" .
    from to_double_bound(1) [OF pq] have "0 \<le> value_of (to_double p q)"
      by (cases "to_double p q") (simp add: value_of_def)
    with up show ?thesis by (simp add: dt)
  qed
  then show "0 \<le> value_of (double_times r n)" and "value_of (double_times r n) < real_of_int n"
    by simp_all
qed

lemma index_in_range:
  assumes "unit_double r" and "0 < length xs"
  shows "0 \<le> Math_floor (double_times r (int (length xs)))"
    and "Math_floor (double_times r (int (length xs))) < int (length xs)"
proof -
  from assms(2) have n: "0 < int (length xs)" by simp
  from double_times_range [OF assms(1) n]
  show "0 \<le> Math_floor (double_times r (int (length xs)))"
    and "Math_floor (double_times r (int (length xs))) < int (length xs)"
    by (simp_all add: Math_floor_value floor_less_iff)
qed

lemma third_rounds_up: "Math_floor (double_times (6004799503160661, - 54) 3) = 1"
  by code_simp

lemma half_of_three: "Math_floor (double_times (1, - 1) 3) = 1"
  by code_simp

lemma array_get_in_range: "0 \<le> i \<Longrightarrow> i < int (length xs) \<Longrightarrow> \<exists>x\<in>set xs. array_get xs i = Some x"
  by (auto simp: array_get_def)

lemma getRandomSubstitution_range:
  assumes "unit_double (rnd k)"
  shows "case substitutions p of
           Own subs \<Rightarrow> fst (getRandomSubstitution rnd k p) \<in> Some ` set subs
         | Inherited \<Rightarrow> fst (getRandomSubstitution rnd k p) = None
         | Missing \<Rightarrow> fst (getRandomSubstitution rnd k p) = Some p"
proof (cases "substitutions p")
  case (Own subs)
  then have "0 < length subs" using substitutions_not_Nil by blast
  from index_in_range [OF assms this] array_get_in_range
  have "\<exists>x\<in>set subs. array_get subs (Math_floor (double_times (rnd k) (int (length subs)))) = Some x"
    by blast
  with Own show ?thesis by (auto simp: getRandomSubstitution_def)
qed (simp_all add: getRandomSubstitution_def)

section \<open>Alternates of the Substitution Heuristic\<close>

text \<open>
  The symbols that the heuristic is called with are the phonemes of the sentence
  list, and none of them is the name of a property that every object inherits.
\<close>

lemma sentence_phonemes_plain:
  "\<forall>s\<in>set sentenceList. \<forall>p\<in>set (phonemes s). p \<notin> set inherited_names"
  by (simp add: sentenceList_def inherited_names_def js_def)

text \<open>
  The draw \<open>0.3333333333333333\<close>, which is \<open>6004799503160661 / 2 ^ 54\<close>: its exact product
  with 3 is below 1, the double product is 1, and the voiced TH gets its second
  alternate.
\<close>

lemma third_of_eth:
  "unit_double (6004799503160661, - 54) \<and>
   fst (getRandomSubstitution (\<lambda>_. (6004799503160661, - 54)) 0 ipa_eth) = Some (js ''z'')"
  by (simp add: unit_double_def getRandomSubstitution_def substitutions_def object_get_def
        substitutions_entries_def third_rounds_up array_get_def)

text \<open>
  C7: for a value of \<^verbatim>\<open>Math.random()\<close>, a double that is at least 0 and less than 1,
  \<^verbatim>\<open>getRandomSubstitution\<close> returns one of the listed alternates of a symbol that is a
  key of the substitution table, and returns the symbol itself when the lookup in the
  table gives \<^verbatim>\<open>undefined\<close>, which it does for every symbol that is neither a key of the
  table nor a property name inherited from \<^verbatim>\<open>Object.prototype\<close>; the entry of the
  voiceless TH lists t, s and f.
\<close>

theorem getRandomSubstitution_alternate:
  assumes "unit_double (rnd k)"
  shows "(\<forall>subs. substitutions p = Own subs \<longrightarrow>
            (\<exists>s\<in>set subs. fst (getRandomSubstitution rnd k p) = Some s)) \<and>
         (substitutions p = Missing \<longrightarrow> fst (getRandomSubstitution rnd k p) = Some p) \<and>
         (map_of substitutions_entries p = None \<and> p \<notin> set inherited_names \<longrightarrow>
            substitutions p = Missing) \<and>
         substitutions ipa_theta = Own [js ''t'', js ''s'', js ''f'']"
proof (intro conjI allI impI)
  fix subs assume "substitutions p = Own subs"
  with getRandomSubstitution_range [of rnd k p] assms
  show "\<exists>s\<in>set subs. fst (getRandomSubstitution rnd k p) = Some s" by auto
next
  assume "substitutions p = Missing"
  with getRandomSubstitution_range [of rnd k p] assms
  show "fst (getRandomSubstitution rnd k p) = Some p" by simp
next
  assume "map_of substitutions_entries p = None \<and> p \<notin> set inherited_names"
  then show "substitutions p = Missing" by (simp add: substitutions_def object_get_def)
next
  show "substitutions ipa_theta = Own [js ''t'', js ''s'', js ''f'']"
    by (simp add: substitutions_def object_get_def substitutions_entries_def)
qed

theorem getRandomSubstitution_alternate_witness:
  "unit_double (steady 0) \<and>
   substitutions ipa_theta = Own [js ''t'', js ''s'', js ''f''] \<and>
   fst (getRandomSubstitution steady 0 ipa_theta) = Some (js ''s'') \<and>
   map_of substitutions_entries (js ''k'') = None \<and> js ''k'' \<notin> set inherited_names \<and>
   substitutions (js ''k'') = Missing \<and>
   fst (getRandomSubstitution steady 0 (js ''k'')) = Some (js ''k'')"
proof -
  have a: "unit_double (steady 0)" by (rule steady_draw)
  have k: "map_of substitutions_entries (js ''k'') = None" "js ''k'' \<notin> set inherited_names"
    by (simp_all add: substitutions_entries_def inherited_names_def js_def)
  from getRandomSubstitution_alternate [of steady 0 "js ''k''"] a k
  have 1: "substitutions (js ''k'') = Missing"
    "fst (getRandomSubstitution steady 0 (js ''k'')) = Some (js ''k'')" by simp_all
  from getRandomSubstitution_alternate [of steady 0 ipa_theta] a
  have t: "substitutions ipa_theta = Own [js ''t'', js ''s'', js ''f'']" by simp
  have 2: "fst (getRandomSubstitution steady 0 ipa_theta) = Some (js ''s'')"
    by (simp add: getRandomSubstitution_def t steady_def half_of_three array_get_def)
  from a k 1 t 2 show ?thesis by simp
qed

section \<open>Cyclic advance and the frame of Try Again\<close>

text \<open>
  C9: \<^verbatim>\<open>nextSentence\<close> takes the index \<open>i\<close> to \<open>(i + 1) mod count\<close>; from the last index
  it goes to 0, and \<open>count\<close> applications from an index of the list come back to it.
\<close>

theorem next_is_cyclic:
  "currentIndex (nextSentence w) = (currentIndex w + 1) mod length sentenceList \<and>
   (currentIndex w = length sentenceList - 1 \<longrightarrow> currentIndex (nextSentence w) = 0) \<and>
   (currentIndex w < length sentenceList \<longrightarrow>
      currentIndex ((nextSentence ^^ length sentenceList) w) = currentIndex w)"
proof -
  have step: "currentIndex (nextSentence v) = (currentIndex v + 1) mod 12" for v
    by (simp add: nextSentence_def revokeRecorded_def Let_def length_sentenceList split: option.splits)
  have iter: "currentIndex w < 12 \<Longrightarrow>
      currentIndex ((nextSentence ^^ k) w) = (currentIndex w + k) mod 12" for k
    by (induction k) (simp_all add: step mod_Suc_eq)
  show ?thesis using step [of w] iter [of 12] by (auto simp: length_sentenceList)
qed

theorem next_is_cyclic_witness:
  "currentIndex (nextSentence (init\<lparr>currentIndex := 11\<rparr>)) = 0 \<and>
   currentIndex ((nextSentence ^^ length sentenceList) (init\<lparr>currentIndex := 11\<rparr>)) = 11"
  using next_is_cyclic [of "init\<lparr>currentIndex := 11\<rparr>"] by (simp add: length_sentenceList)

text \<open>
  C10: \<^verbatim>\<open>resetSentence\<close> changes nothing but the comparison, the raw recognizer
  output, the recorded-audio handle (revoking its URL when there is one), the hovered
  phoneme and the lifecycle state, which becomes idle; the sentence index and the
  selected model stay as they were.
\<close>

theorem reset_frame:
  "resetSentence w =
     w\<lparr>recordedAudioUrl := None,
       urlOps := urlOps w @ (case recordedAudioUrl w of Some u \<Rightarrow> [RevokeObjectURL u] | None \<Rightarrow> []) @
                 [SetRecordedAudioUrl None],
       recordingState := Idle, results := None, rawPhonemes := [], hoveredPhoneme := None\<rparr> \<and>
   currentIndex (resetSentence w) = currentIndex w \<and>
   model (resetSentence w) = model w"
  by (simp add: resetSentence_def revokeRecorded_def Let_def split: option.splits)

section \<open>Reachable states\<close>

text \<open>
  What \<^verbatim>\<open>processRecording\<close> and \<^verbatim>\<open>playPhoneme\<close> leave alone, and that
  \<^verbatim>\<open>processRecording\<close> returns normally in a closure whose sentence index is an index of
  the list.
\<close>

lemma simulateResults_fields:
  assumes "simulateResults env rnd w = Inr w'"
  shows "recordingState w' = Results" "results w' \<noteq> None"
    "currentIndex w' = currentIndex w" "model w' = model w"
    "recordedAudioUrl w' = recordedAudioUrl w" "mediaRecorderRef w' = mediaRecorderRef w"
    "startRecordingEnv w' = startRecordingEnv w" "pendingMic w' = pendingMic w"
    "stopping w' = stopping w" "analyzing w' = analyzing w" "exiting w' = exiting w"
    "urlOps w' = urlOps w" "nextUrl w' = nextUrl w"
    "rejections w' = rejections w" "requests w' = requests w"
  using assms by (auto simp: simulateResults_def Let_def split: option.splits)

lemma processRecording_fields:
  assumes "processRecording env outcome rnd w = Inr w'"
  shows "recordingState w' = Results" "results w' \<noteq> None"
    "currentIndex w' = currentIndex w" "model w' = model w"
    "recordedAudioUrl w' = recordedAudioUrl w" "mediaRecorderRef w' = mediaRecorderRef w"
    "startRecordingEnv w' = startRecordingEnv w" "pendingMic w' = pendingMic w"
    "stopping w' = stopping w" "analyzing w' = analyzing w" "exiting w' = exiting w"
    "urlOps w' = urlOps w" "nextUrl w' = nextUrl w"
    "rejections w' = rejections w" "requests w' = requests w"
  using assms
  by (cases outcome;
      auto simp: processRecording_def split: option.splits dest: simulateResults_fields)+

lemma processRecording_total:
  "env_index env < length sentenceList \<Longrightarrow> \<exists>w'. processRecording env outcome rnd w = Inr w'"
  by (cases outcome)
     (auto simp: processRecording_def simulateResults_def currentSentence_def Let_def split: option.splits)

lemma playPhoneme_fields:
  "recordingState (playPhoneme p outcome w) = recordingState w"
  "results (playPhoneme p outcome w) = results w"
  "currentIndex (playPhoneme p outcome w) = currentIndex w"
  "model (playPhoneme p outcome w) = model w"
  "recordedAudioUrl (playPhoneme p outcome w) = recordedAudioUrl w"
  "mediaRecorderRef (playPhoneme p outcome w) = mediaRecorderRef w"
  "startRecordingEnv (playPhoneme p outcome w) = startRecordingEnv w"
  "pendingMic (playPhoneme p outcome w) = pendingMic w"
  "stopping (playPhoneme p outcome w) = stopping w"
  "analyzing (playPhoneme p outcome w) = analyzing w"
  "exiting (playPhoneme p outcome w) = exiting w"
  "urlOps (playPhoneme p outcome w) = urlOps w"
  "nextUrl (playPhoneme p outcome w) = nextUrl w"
  "requests (playPhoneme p outcome w) = requests w"
  by (cases outcome;
      simp add: playPhoneme_def speakExample_def pauseCurrent_def Let_def
           split: option.splits lookup.splits)+

lemma set_remove_nth: "set (remove_nth i xs) \<subseteq> set xs"
  by (auto simp: remove_nth_def dest: in_set_takeD in_set_dropD)

text \<open>Every event keeps the sentence indices in range.\<close>

lemma index_ok_step:
  assumes "index_ok w"
  shows "index_ok (step e w)"
proof (cases e)
  case (SetModel m)
  with assms show ?thesis
    by (auto simp: index_ok_def setModel_def)
next
  case TapRecord
  with assms show ?thesis
    by (auto simp: index_ok_def)
next
  case (MicAnswered i granted)
  show ?thesis
  proof (cases "i < length (pendingMic w)")
    case True
    with assms have "env_index (pendingMic w ! i) < length sentenceList"
      by (simp add: index_ok_def)
    with assms True MicAnswered set_remove_nth [of i "pendingMic w"] show ?thesis
      by (auto simp: index_ok_def startRecording_def)
  next
    case False
    with assms MicAnswered show ?thesis by simp
  qed
next
  case TapStop
  with assms show ?thesis
    by (auto simp: index_ok_def stopRecording_def split: option.splits)
next
  case (RecorderStopped i)
  show ?thesis
  proof (cases "i < length (stopping w)")
    case True
    with assms have "env_index (stopping w ! i) < length sentenceList"
      by (simp add: index_ok_def)
    with assms True RecorderStopped set_remove_nth [of i "stopping w"] show ?thesis
      by (auto simp: index_ok_def onstop_def currentSentence_def Let_def)
  next
    case False
    with assms RecorderStopped show ?thesis by simp
  qed
next
  case TryAgain
  with assms show ?thesis
    by (auto simp: index_ok_def resetSentence_def revokeRecorded_def Let_def split: option.splits)
next
  case Next
  with assms show ?thesis
    by (auto simp: index_ok_def length_sentenceList nextSentence_def revokeRecorded_def Let_def
          split: option.splits)
next
  case (ClickActual i outcome)
  with assms show ?thesis
    by (auto simp: index_ok_def playPhoneme_fields split: option.splits)
next
  case (ClickExpected i outcome)
  with assms show ?thesis
    by (auto simp: index_ok_def playPhoneme_fields)
next
  case (HoverActual i)
  with assms show ?thesis
    by (auto simp: index_ok_def)
next
  case (HoverExpected i)
  with assms show ?thesis
    by (auto simp: index_ok_def)
next
  case Unhover
  with assms show ?thesis
    by (auto simp: index_ok_def split: option.splits)
next
  case (AudioEnded a)
  with assms show ?thesis
    by (auto simp: index_ok_def audioEnded_def)
next
  case UtteranceEnded
  with assms show ?thesis
    by (auto simp: index_ok_def utteranceEnded_def split: list.splits)
next
  case ExitFinished
  with assms show ?thesis
    by (auto simp: index_ok_def)
next
  case (AnalyzeResolved i outcome rnd)
  show ?thesis
  proof (cases "i < length (analyzing w)")
    case False
    with assms AnalyzeResolved show ?thesis by simp
  next
    case True
    with assms have "env_index (analyzing w ! i) < length sentenceList"
      by (simp add: index_ok_def)
    from processRecording_total [OF this] obtain w' where
      Inr: "processRecording (analyzing w ! i) outcome rnd
              (w\<lparr>analyzing := remove_nth i (analyzing w)\<rparr>) = Inr w'" by blast
    from processRecording_fields [OF Inr] assms set_remove_nth [of i "analyzing w"]
    have "index_ok w'"
      by (auto simp: index_ok_def)
    with True AnalyzeResolved Inr show ?thesis by simp
  qed
qed

lemma init_ok: "index_ok init"
  by (simp add: index_ok_def init_def sentenceList_def)

lemma reachable_ok: "reachable w \<Longrightarrow> index_ok w"
  by (induction rule: reachable.induct) (simp_all add: init_ok index_ok_step)

lemma reachable_run: "reachable w \<Longrightarrow> reachable (run es w)"
  by (induction es arbitrary: w) (simp_all add: reachable_step)

lemma run_append: "run (es @ fs) w = run fs (run es w)"
  by (induction es arbitrary: w) simp_all

section \<open>Comparison and lifecycle state\<close>

text \<open>The state after one attempt without backend, and after two with Next between them.\<close>

lemmas attempt_defs =
  init_def record_button_def remove_nth_def startRecording_def stopRecording_def onstop_def
  processRecording_def simulateResults_def currentSentence_def length_sentenceList Let_def

lemma offline_attempt_init:
  "recordingState (run offline_attempt init) = Results"
  "currentIndex (run offline_attempt init) = 0"
  "results (run offline_attempt init) = Some (simulate steady 0 (phonemes (sentenceList ! 0)))"
  "recordedAudioUrl (run offline_attempt init) = Some 0"
  "urlOps (run offline_attempt init) = [CreateObjectURL 0, SetRecordedAudioUrl (Some 0)]"
  "requests (run offline_attempt init) =
     [\<lparr>req_expected = phonemes (sentenceList ! 0), req_model = Allosaurus\<rparr>]"
  "exiting (run offline_attempt init) = None"
  "pendingMic (run offline_attempt init) = []"
  by (simp_all add: offline_attempt_def attempt_defs)

lemma two_attempts_init:
  "recordingState (run two_attempts init) = Results"
  "currentIndex (run two_attempts init) = 1"
  "results (run two_attempts init) = Some (simulate steady 0 (phonemes (sentenceList ! 0)))"
  "requests (run two_attempts init) =
     [\<lparr>req_expected = phonemes (sentenceList ! 0), req_model = Allosaurus\<rparr>,
      \<lparr>req_expected = phonemes (sentenceList ! 0), req_model = Allosaurus\<rparr>]"
  by (simp_all add: two_attempts_def offline_attempt_def attempt_defs screen_view_def
        nextSentence_def revokeRecorded_def)

text \<open>
  The lifecycle state is a value of a type with the four values idle, recording,
  processing and results.
\<close>

lemma recordingState_cases: "recordingState w \<in> {Idle, Recording, Processing, Results}"
  by (cases "recordingState w") simp_all

text \<open>
  The record button stays enabled while a call of \<^verbatim>\<open>getUserMedia\<close> is pending, and the
  continuation of \<^verbatim>\<open>startRecording\<close> sets the state to recording without reading it.
\<close>

lemma tap_leaves_idle:
  "recordingState w = Idle \<Longrightarrow> exiting w = None \<Longrightarrow>
     recordingState (step TapRecord w) = Idle \<and> record_button (step TapRecord w) \<and>
     pendingMic (step TapRecord w) = pendingMic w @ [startRecordingEnv w]"
  by (simp add: record_button_def)

lemma answer_sets_recording:
  "i < length (pendingMic w) \<Longrightarrow>
     recordingState (step (MicAnswered i True) w) = Recording \<and>
     results (step (MicAnswered i True) w) = results w"
  by (simp add: startRecording_def)

text \<open>
  One half of the invariant holds in every reachable state: in the state results a
  comparison is stored. Every handler that sets the state to results stores a
  comparison with it, and the handlers that clear the comparison set the state to idle.
\<close>

lemma comparison_shown_step:
  assumes "comparison_shown w"
  shows "comparison_shown (step e w)"
proof (cases e)
  case (AnalyzeResolved i outcome rnd)
  show ?thesis
  proof (cases "i < length (analyzing w)")
    case False
    with assms AnalyzeResolved show ?thesis by simp
  next
    case True
    show ?thesis
    proof (cases "processRecording (analyzing w ! i) outcome rnd
                    (w\<lparr>analyzing := remove_nth i (analyzing w)\<rparr>)")
      case (Inl x)
      with assms True AnalyzeResolved show ?thesis by (simp add: comparison_shown_def)
    next
      case (Inr w')
      from processRecording_fields(2) [OF Inr] have "comparison_shown w'"
        by (simp add: comparison_shown_def)
      with True AnalyzeResolved Inr show ?thesis by simp
    qed
  qed
next
  case (ClickActual i outcome)
  with assms show ?thesis
    by (auto simp: comparison_shown_def playPhoneme_fields split: option.splits)
next
  case (ClickExpected i outcome)
  with assms show ?thesis
    by (auto simp: comparison_shown_def playPhoneme_fields)
qed (use assms in \<open>auto simp: comparison_shown_def setModel_def startRecording_def
       stopRecording_def onstop_def resetSentence_def nextSentence_def revokeRecorded_def
       audioEnded_def utteranceEnded_def Let_def split: option.splits list.splits\<close>)

lemma results_state_has_comparison:
  assumes "reachable w" and "recordingState w = Results"
  shows "results w \<noteq> None"
proof -
  from assms(1) have "comparison_shown w"
    by (induction rule: reachable.induct)
       (simp_all add: comparison_shown_step, simp add: comparison_shown_def init_def)
  with assms(2) show ?thesis by (simp add: comparison_shown_def)
qed

text \<open>
  C3: the user taps the record button twice before \<^verbatim>\<open>getUserMedia\<close> has answered the
  first tap. The first call is granted, and the attempt runs to its results; then the
  second call is granted. The state is recording, and the comparison of the first
  attempt is still stored.
\<close>

theorem recording_with_comparison:
  "recordingState (run late_answer init) = Recording \<and>
   results (run late_answer init) = Some (simulate steady 0 (phonemes (sentenceList ! 0))) \<and>
   map_option length (results (run late_answer init)) = Some 12"
proof -
  have "length (phonemes (sentenceList ! 0)) = 12" by (simp add: sentenceList_def)
  moreover have "recordingState (run late_answer init) = Recording"
    "results (run late_answer init) = Some (simulate steady 0 (phonemes (sentenceList ! 0)))"
    by (simp_all add: late_answer_def attempt_defs)
  ultimately show ?thesis by (simp add: length_simulate)
qed

lemma late_answer_reachable: "reachable (run late_answer init)"
  by (simp add: reachable_run reachable_init)

section \<open>Release of the recorded audio\<close>

text \<open>
  From a view of the current render, Next and Try Again revoke the stored URL once and
  then clear the handle.
\<close>

lemma release_from_current_view:
  assumes "exiting w = None" and "recordingState w = Results" and "results w = Some rs"
    and "recordedAudioUrl w = Some u"
  shows "urlOps (step Next w) = urlOps w @ [RevokeObjectURL u, SetRecordedAudioUrl None]"
    and "urlOps (step TryAgain w) = urlOps w @ [RevokeObjectURL u, SetRecordedAudioUrl None]"
    and "recordedAudioUrl (step Next w) = None"
    and "recordedAudioUrl (step TryAgain w) = None"
    and "exiting (step Next w) = Some \<lparr>view_url = Some u, view_results = rs\<rparr>"
  using assms
  by (simp_all add: screen_view_def nextSentence_def resetSentence_def revokeRecorded_def Let_def)

text \<open>
  The view that animates out keeps the handlers of its render, and their
  \<^verbatim>\<open>recordedAudioUrl\<close> is the URL that the first click has revoked.
\<close>

lemma release_from_exiting_view:
  assumes "exiting w = Some v" and "view_url v = Some u"
  shows "urlOps (step Next w) = urlOps w @ [RevokeObjectURL u, SetRecordedAudioUrl None]"
    and "urlOps (step TryAgain w) = urlOps w @ [RevokeObjectURL u, SetRecordedAudioUrl None]"
  using assms
  by (simp_all add: screen_view_def nextSentence_def resetSentence_def revokeRecorded_def Let_def)

text \<open>
  The \<^verbatim>\<open>onstop\<close> handler stores the new URL without reading the handle: a URL
  that is stored then is never revoked by a handler of a later render. In the session
  of the late answer, stopping the second recorder replaces the URL 0 of the first
  attempt, which no call has revoked, by the URL 1.
\<close>

lemma onstop_overwrites:
  "currentSentence (env_index env) \<noteq> None \<Longrightarrow>
     urlOps (onstop env w) =
       urlOps w @ [CreateObjectURL (nextUrl w), SetRecordedAudioUrl (Some (nextUrl w))] \<and>
     recordedAudioUrl (onstop env w) = Some (nextUrl w)"
  by (auto simp: onstop_def Let_def)

lemma late_answer_leak:
  "urlOps (run (late_answer @ [TapStop, RecorderStopped 0]) init) =
     [CreateObjectURL 0, SetRecordedAudioUrl (Some 0),
      CreateObjectURL 1, SetRecordedAudioUrl (Some 1)] \<and>
   recordedAudioUrl (run (late_answer @ [TapStop, RecorderStopped 0]) init) = Some 1"
  by (simp add: late_answer_def attempt_defs)

text \<open>
  C5: after an attempt the user clicks Next twice, the second time while the results
  view animates out. Both clicks run the \<^verbatim>\<open>nextSentence\<close> of the render that showed the
  results: the URL of the recording is created once and revoked twice.
\<close>

theorem recorded_audio_released_twice:
  "urlOps (run double_next init) =
     [CreateObjectURL 0, SetRecordedAudioUrl (Some 0),
      RevokeObjectURL 0, SetRecordedAudioUrl None,
      RevokeObjectURL 0, SetRecordedAudioUrl None] \<and>
   count_list (urlOps (run double_next init)) (CreateObjectURL 0) = 1 \<and>
   count_list (urlOps (run double_next init)) (RevokeObjectURL 0) = 2 \<and>
   currentIndex (run double_next init) = 2"
proof -
  have "urlOps (run double_next init) =
     [CreateObjectURL 0, SetRecordedAudioUrl (Some 0),
      RevokeObjectURL 0, SetRecordedAudioUrl None,
      RevokeObjectURL 0, SetRecordedAudioUrl None]"
    "currentIndex (run double_next init) = 2"
    by (simp_all add: double_next_def offline_attempt_def attempt_defs screen_view_def
          nextSentence_def revokeRecorded_def)
  then show ?thesis by simp
qed

section \<open>Fallback of phoneme playback\<close>

text \<open>The first piece of every example text of the table has no white space at its ends.\<close>

lemma example_words_trimmed:
  "\<forall>(p, info) \<in> set phonemeInfo_entries.
     trim (hd (split_at 0x2C (example info))) = hd (split_at 0x2C (example info))"
  by (simp add: phonemeInfo_entries_def js_def trim_def is_whitespace_def)

lemma phonemeInfo_entry: "phonemeInfo p = Own info \<Longrightarrow> (p, info) \<in> set phonemeInfo_entries"
  by (auto simp: phonemeInfo_def object_get_def map_of_SomeD split: option.splits if_splits)

lemma example_word: "phonemeInfo p = Own info \<Longrightarrow>
     trim (hd (split_at 0x2C (example info))) = hd (split_at 0x2C (example info))"
  using example_words_trimmed phonemeInfo_entry by fastforce

lemma phonemeInfo_theta:
  "phonemeInfo ipa_theta =
     Own \<lparr>description = js ''Voiceless TH'', example = js ''think, three, bath'',
          tip = js ''Put tongue between teeth, blow air without vibrating throat''\<rparr>"
  by (simp add: phonemeInfo_def object_get_def phonemeInfo_entries_def)

text \<open>
  When the request to \<^verbatim>\<open>/api/speak\<close> fails (the fetch rejects, the status is not a
  success, or the body cannot be read), \<^verbatim>\<open>playPhoneme\<close> gives speech synthesis the
  first comma-separated piece of the example text of a symbol that is a key of
  \<^verbatim>\<open>phonemeInfo\<close>, which for the voiceless TH is the text think. When the lookup gives
  \<^verbatim>\<open>undefined\<close> it starts no synthesis and no audio and clears the currently-playing
  marker.
\<close>

lemma speak_fallback_plain:
  assumes "outcome \<in> {SpeakFetchRejected, SpeakNotOk, SpeakBlobRejected}"
  shows "(\<forall>info. phonemeInfo p = Own info \<longrightarrow>
            speechQueue (playPhoneme p outcome w) =
              speechQueue w @ [\<lparr>utt_text = hd (split_at 0x2C (example info)), utt_rate = 7 / 10\<rparr>]) \<and>
         (phonemeInfo p = Missing \<longrightarrow>
            speechQueue (playPhoneme p outcome w) = speechQueue w \<and>
            sounding (playPhoneme p outcome w) = sounding w \<and>
            playingPhoneme (playPhoneme p outcome w) = None) \<and>
         (p = ipa_theta \<longrightarrow>
            speechQueue (playPhoneme p outcome w) =
              speechQueue w @ [\<lparr>utt_text = js ''think'', utt_rate = 7 / 10\<rparr>])"
proof -
  have play: "playPhoneme p outcome w = speakExample p (w\<lparr>playingPhoneme := Some p\<rparr>)"
    using assms by (auto simp: playPhoneme_def Let_def)
  have some: "speechQueue (playPhoneme p outcome w) =
      speechQueue w @ [\<lparr>utt_text = hd (split_at 0x2C (example info)), utt_rate = 7 / 10\<rparr>]"
    if "phonemeInfo p = Own info" for info
    using that example_word [OF that] by (simp add: play speakExample_def)
  have none: "speechQueue (playPhoneme p outcome w) = speechQueue w \<and>
      sounding (playPhoneme p outcome w) = sounding w \<and>
      playingPhoneme (playPhoneme p outcome w) = None" if "phonemeInfo p = Missing"
    using that by (simp add: play speakExample_def)
  have theta: "speechQueue (playPhoneme p outcome w) =
      speechQueue w @ [\<lparr>utt_text = js ''think'', utt_rate = 7 / 10\<rparr>]" if "p = ipa_theta"
  proof -
    have "hd (split_at 0x2C (js ''think, three, bath'')) = js ''think''"
      by (simp add: js_def)
    with some [OF phonemeInfo_theta [unfolded that [symmetric]]] that show ?thesis by simp
  qed
  from some none theta show ?thesis by blast
qed

text \<open>
  A symbol that is the name of an inherited property has no metadata, and the lookup
  is truthy all the same: the fallback throws before it clears the marker.
\<close>

lemma inherited_name_fallback:
  assumes "outcome \<in> {SpeakFetchRejected, SpeakNotOk, SpeakBlobRejected}"
    and "phonemeInfo p = Inherited"
  shows "playPhoneme p outcome w = w\<lparr>playingPhoneme := Some p, rejections := Suc (rejections w)\<rparr>"
  using assms by (auto simp: playPhoneme_def speakExample_def Let_def)

text \<open>
  C8: the backend answers an attempt with a comparison whose first \<^verbatim>\<open>actual\<close> is the
  string constructor, and the user clicks that entry while \<^verbatim>\<open>/api/speak\<close> answers with
  an error status. The symbol is no key of \<^verbatim>\<open>phonemeInfo\<close>, so it has no metadata; the
  lookup gives the inherited property, the handler ends in an exception, no synthesis
  and no audio starts, and the currently-playing marker is not cleared.
\<close>

theorem inherited_name_keeps_marker:
  "map_of phonemeInfo_entries (js ''constructor'') = None \<and>
   phonemeInfo (js ''constructor'') = Inherited \<and>
   recordingState (run odd_click init) = Results \<and>
   playingPhoneme (run odd_click init) = Some (js ''constructor'') \<and>
   speechQueue (run odd_click init) = [] \<and>
   sounding (run odd_click init) = [] \<and>
   rejections (run odd_click init) = 1"
proof -
  have m: "map_of phonemeInfo_entries (js ''constructor'') = None"
    by (simp add: phonemeInfo_entries_def js_def)
  then have i: "phonemeInfo (js ''constructor'') = Inherited"
    by (simp add: phonemeInfo_def object_get_def inherited_names_def)
  define w where "w = run (butlast odd_click) init"
  have w: "recordingState w = Results" "exiting w = None"
    "results w = Some odd_comparison" "playingPhoneme w = None" "speechQueue w = []"
    "sounding w = []" "rejections w = 0"
    by (simp_all add: w_def odd_click_def attempt_defs raw_text_def js_def)
  have s: "shown_results w = odd_comparison"
    by (simp add: shown_results_def screen_view_def w)
  have a: "0 < length odd_comparison" "actual (odd_comparison ! 0) = Some (js ''constructor'')"
    "js ''constructor'' \<noteq> []"
    by (simp_all add: odd_comparison_def js_def)
  have "run odd_click init = step (ClickActual 0 SpeakNotOk) w"
    by (simp add: w_def odd_click_def)
  also have "\<dots> = playPhoneme (js ''constructor'') SpeakNotOk w"
    using a by (simp add: s)
  also have "\<dots> = w\<lparr>playingPhoneme := Some (js ''constructor''), rejections := Suc (rejections w)\<rparr>"
    by (rule inherited_name_fallback [OF _ i]) simp
  finally show ?thesis using m i w by simp
qed

section \<open>The fallback analysis\<close>

text \<open>
  In its own closure the fallback does what it is meant to do: after any failure of
  the request it returns normally with one entry for each phoneme of the closure's
  sentence, every \<^verbatim>\<open>actual\<close> being the expected symbol or one of its alternates, the raw
  text being the \<^verbatim>\<open>actual\<close> values joined with single spaces and not empty, and the
  state being results. When the closure is of the current render, the sentence is the current one.
\<close>

lemma fallback_on_failure:
  assumes "outcome \<in> {AnalyzeFetchRejected, AnalyzeNotOk, AnalyzeJsonRejected}"
    and "currentSentence (env_index env) = Some s"
  shows "processRecording env outcome rnd w =
           Inr (w\<lparr>results := Some (simulate rnd 0 (phonemes s)),
                  rawPhonemes := join (js '' '') (map actual_or_expected (simulate rnd 0 (phonemes s))),
                  recordingState := Results\<rparr>)"
  using assms by (auto simp: processRecording_def simulateResults_def Let_def)

lemma plain_not_Inherited: "p \<notin> set inherited_names \<Longrightarrow> substitutions p \<noteq> Inherited"
  by (simp add: substitutions_def object_get_def split: option.splits)

lemma simulate_actual:
  assumes "\<forall>k. unit_double (rnd k)" and "\<forall>p\<in>set ps. p \<notin> set inherited_names"
    and "r \<in> set (simulate rnd k ps)"
  shows "actual r = Some (expected r) \<or>
         (\<exists>subs. substitutions (expected r) = Own subs \<and> actual r \<in> Some ` set subs)"
  using assms(2,3)
proof (induction ps arbitrary: k)
  case Nil
  then show ?case by simp
next
  case (Cons p ps)
  from assms(1) have b: "unit_double (rnd (Suc k))" by simp
  from Cons.prems(1) have "substitutions p \<noteq> Inherited" by (simp add: plain_not_Inherited)
  with getRandomSubstitution_range [of rnd "Suc k" p] b
  have g: "fst (getRandomSubstitution rnd (Suc k) p) = Some p \<or>
      (\<exists>subs. substitutions p = Own subs \<and> fst (getRandomSubstitution rnd (Suc k) p) \<in> Some ` set subs)"
    by (cases "substitutions p") auto
  from Cons.prems(2) consider
      (hd) "expected r = p" "actual r = Some p \<or> actual r = fst (getRandomSubstitution rnd (Suc k) p)"
    | (tl) k' where "r \<in> set (simulate rnd k' ps)"
    by (auto simp: Let_def case_prod_beta split: if_splits)
  then show ?case
  proof cases
    case hd
    with g show ?thesis by auto
  next
    case tl
    with Cons.prems(1) show ?thesis by (intro Cons.IH) simp_all
  qed
qed

lemma join_not_Nil: "xs \<noteq> [] \<Longrightarrow> hd xs \<noteq> [] \<Longrightarrow> join sep xs \<noteq> []"
  by (cases "(sep, xs)" rule: join.cases) auto

lemma actual_or_expected_not_Nil: "expected r \<noteq> [] \<Longrightarrow> actual_or_expected r \<noteq> []"
  by (simp add: actual_or_expected_def split: option.splits)

lemma sentences_not_empty:
  "\<forall>s\<in>set sentenceList. phonemes s \<noteq> [] \<and> [] \<notin> set (phonemes s)"
  by (simp add: sentenceList_def js_def)

lemma fallback_raw_not_empty:
  assumes "currentSentence i = Some s"
  shows "join (js '' '') (map actual_or_expected (simulate rnd 0 (phonemes s))) \<noteq> []"
proof -
  from assms have "s \<in> set sentenceList"
    by (auto simp: currentSentence_def split: if_splits)
  with sentences_not_empty have n: "phonemes s \<noteq> []" "[] \<notin> set (phonemes s)"
    by blast+
  then obtain p ps where ps: "phonemes s = p # ps" and p: "p \<noteq> []"
    by (cases "phonemes s") auto
  obtain r rs where r: "simulate rnd 0 (p # ps) = r # rs" and e: "expected r = p"
    by (simp add: Let_def case_prod_beta)
  from e p have "actual_or_expected r \<noteq> []" by (simp add: actual_or_expected_not_Nil)
  with r ps show ?thesis by (simp add: join_not_Nil)
qed

lemma analysis_resolves:
  assumes "reachable w" and "i < length (analyzing w)"
  shows "recordingState (step (AnalyzeResolved i outcome rnd) w) = Results \<and>
         rejections (step (AnalyzeResolved i outcome rnd) w) = rejections w"
proof -
  from reachable_ok [OF assms(1)] assms(2) have "env_index (analyzing w ! i) < length sentenceList"
    by (simp add: index_ok_def)
  from processRecording_total [OF this] obtain w' where
    Inr: "processRecording (analyzing w ! i) outcome rnd
            (w\<lparr>analyzing := remove_nth i (analyzing w)\<rparr>) = Inr w'" by blast
  from processRecording_fields [OF Inr] assms(2) Inr show ?thesis by simp
qed

lemma fresh_closure_fallback:
  assumes "reachable w" and "i < length (analyzing w)"
    and "env_index (analyzing w ! i) = currentIndex w"
    and "outcome \<in> {AnalyzeFetchRejected, AnalyzeNotOk, AnalyzeJsonRejected}"
  shows "map_option (map expected) (results (step (AnalyzeResolved i outcome rnd) w)) =
           map_option phonemes (currentSentence (currentIndex w))"
proof -
  from reachable_ok [OF assms(1)] have "currentIndex w < length sentenceList"
    by (simp add: index_ok_def)
  with assms(3) have s: "currentSentence (env_index (analyzing w ! i)) =
      Some (sentenceList ! currentIndex w)"
    by (simp add: currentSentence_def)
  from fallback_on_failure [OF assms(4) s] assms(2,3) s show ?thesis
    by (simp add: map_expected_simulate)
qed

lemma setModel_renews_closure:
  "m \<noteq> model w \<Longrightarrow> env_index (startRecordingEnv (setModel m w)) = currentIndex w"
  by (simp add: setModel_def)

lemma nextSentence_keeps_closure:
  "startRecordingEnv (nextSentence w) = startRecordingEnv w"
  by (simp add: nextSentence_def revokeRecorded_def Let_def split: option.splits)

text \<open>
  The closure is the one that \<^verbatim>\<open>useCallback(..., [model])\<close> kept, and a change of
  \<^verbatim>\<open>currentIndex\<close> does not renew it. After Next the recording callback still works
  on the sentence of the render that created it: it posts that sentence's phonemes as
  the expected sequence and fabricates its comparison from them.
\<close>

text \<open>
  C1: the user practises the first sentence with the backend unreachable, presses
  Next, and practises the second sentence, again with the backend unreachable. The
  state reaches results at sentence index 1, and the fabricated comparison has the
  expected phonemes of sentence 0, which are not those of the current sentence.
\<close>

theorem stale_sentence_in_fallback:
  "recordingState (run two_attempts init) = Results \<and>
   currentIndex (run two_attempts init) = 1 \<and>
   map_option (map expected) (results (run two_attempts init)) =
     map_option phonemes (currentSentence 0) \<and>
   map_option phonemes (currentSentence 0) \<noteq> map_option phonemes (currentSentence 1)"
proof -
  have "map_option phonemes (currentSentence 0) \<noteq> map_option phonemes (currentSentence 1)"
    by (simp add: currentSentence_def sentenceList_def)
  then show ?thesis
    by (simp add: two_attempts_init map_expected_simulate currentSentence_def length_sentenceList)
qed

lemma phonemes_lengths:
  "length (phonemes (sentenceList ! 0)) = 12" "length (phonemes (sentenceList ! Suc 0)) = 9"
  by (simp_all add: sentenceList_def)

text \<open>
  C2: in the same session the stored comparison has 12 entries, the length of
  sentence 0, while the current sentence has 9 expected phonemes.
\<close>

theorem stale_comparison_length:
  "currentIndex (run two_attempts init) = 1 \<and>
   map_option length (results (run two_attempts init)) = Some 12 \<and>
   map_option (length \<circ> phonemes) (currentSentence (currentIndex (run two_attempts init))) = Some 9"
  by (simp add: two_attempts_init length_simulate currentSentence_def length_sentenceList
        phonemes_lengths)

section \<open>Concurrent phoneme sounds\<close>

lemma shown_after_attempt:
  "shown_results (run offline_attempt init) =
     map (\<lambda>p. \<lparr>expected = p, actual = Some p, correct = True\<rparr>) (phonemes (sentenceList ! 0))"
  by (simp add: shown_results_def screen_view_def offline_attempt_init simulate_steady)

lemma first_symbols:
  "phonemes (sentenceList ! 0) ! 0 = ipa_eth" "phonemes (sentenceList ! 0) ! Suc 0 = ipa_schwa"
  by (simp_all add: sentenceList_def)

lemma phonemeInfo_schwa:
  "phonemeInfo ipa_schwa =
     Own \<lparr>description = js ''Schwa'', example = js ''about, the, banana'',
          tip = js ''Most relaxed vowel, mouth barely open''\<rparr>"
  by (simp add: phonemeInfo_def object_get_def phonemeInfo_entries_def js_def)

lemma after_attempt_audio:
  "audioRef (run offline_attempt init) = None" "sounding (run offline_attempt init) = []"
  "speechQueue (run offline_attempt init) = []" "nextAudio (run offline_attempt init) = 0"
  by (simp_all add: offline_attempt_def attempt_defs)

lemma shown_results_playPhoneme: "shown_results (playPhoneme p outcome w) = shown_results w"
  by (simp add: shown_results_def screen_view_def playPhoneme_fields split: option.splits)

lemma playPhoneme_played:
  "sounding (playPhoneme p SpeakPlayed w) =
     nextAudio w # (case audioRef w of Some a \<Rightarrow> removeAll a (sounding w) | None \<Rightarrow> sounding w)"
  "speechQueue (playPhoneme p SpeakPlayed w) = speechQueue w"
  by (simp_all add: playPhoneme_def pauseCurrent_def Let_def split: option.splits)

lemma playPhoneme_not_ok:
  "sounding (playPhoneme p SpeakNotOk w) = sounding w"
  "phonemeInfo p = Own info \<Longrightarrow>
     speechQueue (playPhoneme p SpeakNotOk w) =
       speechQueue w @ [\<lparr>utt_text = trim (hd (split_at 0x2C (example info))), utt_rate = 7 / 10\<rparr>]"
  by (simp_all add: playPhoneme_def speakExample_def Let_def split: lookup.splits)

text \<open>
  The path on which the audio arrives pauses the element of the previous request:
  after it, the new element is the only one playing.
\<close>

lemma processRecording_audio:
  assumes "processRecording env outcome rnd w = Inr w'"
  shows "sounding w' = sounding w" "audioRef w' = audioRef w"
  using assms
  by (cases outcome;
      auto simp: processRecording_def simulateResults_def Let_def split: option.splits)+

lemma playPhoneme_audio_ok: "audio_ok w \<Longrightarrow> audio_ok (playPhoneme p outcome w)"
  by (cases outcome)
     (auto simp: audio_ok_def playPhoneme_def speakExample_def pauseCurrent_def Let_def
           split: option.splits lookup.splits)

lemma audio_ok_step: "audio_ok w \<Longrightarrow> audio_ok (step e w)"
proof (cases e)
  case (AnalyzeResolved i outcome rnd)
  assume a: "audio_ok w"
  show ?thesis
  proof (cases "i < length (analyzing w)")
    case False
    with a AnalyzeResolved show ?thesis by simp
  next
    case True
    show ?thesis
    proof (cases "processRecording (analyzing w ! i) outcome rnd
                    (w\<lparr>analyzing := remove_nth i (analyzing w)\<rparr>)")
      case (Inl x)
      with a True AnalyzeResolved show ?thesis by (simp add: audio_ok_def)
    next
      case (Inr w')
      from processRecording_audio [OF Inr] a have "audio_ok w'" by (simp add: audio_ok_def)
      with True AnalyzeResolved Inr show ?thesis by simp
    qed
  qed
next
  case (ClickActual i outcome)
  assume "audio_ok w" with ClickActual show ?thesis
    by (simp add: playPhoneme_audio_ok split: option.splits)
next
  case (ClickExpected i outcome)
  assume "audio_ok w" with ClickExpected show ?thesis by (simp add: playPhoneme_audio_ok)
next
  case (AudioEnded a)
  assume "audio_ok w" with AudioEnded show ?thesis
    by (auto simp: audio_ok_def audioEnded_def)
qed (auto simp: audio_ok_def setModel_def startRecording_def stopRecording_def onstop_def
       resetSentence_def nextSentence_def revokeRecorded_def utteranceEnded_def
       Let_def split: option.splits list.splits)

lemma reachable_audio_ok: "reachable w \<Longrightarrow> audio_ok w"
  by (induction rule: reachable.induct) (simp_all add: audio_ok_step, simp add: audio_ok_def init_def)

lemma success_path_stops_previous:
  assumes "reachable w"
  shows "sounding (playPhoneme p SpeakPlayed w) = [nextAudio w]"
proof -
  from reachable_audio_ok [OF assms] have "\<forall>a\<in>set (sounding w). audioRef w = Some a"
    by (auto simp: audio_ok_def)
  then have "(case audioRef w of Some a \<Rightarrow> removeAll a (sounding w) | None \<Rightarrow> sounding w) = []"
    by (cases "audioRef w") (auto simp: removeAll_filter_not_eq filter_empty_conv)
  then show ?thesis by (simp add: playPhoneme_played)
qed

text \<open>
  C6: the audio of a first phoneme is playing when a second phoneme is requested and
  its request fails. The fallback starts speech synthesis of the example word and
  does not pause the Audio element: the element keeps playing, and two phoneme sounds
  are audible at once.
\<close>

theorem fallback_speech_over_audio:
  "sounding (run two_clicks init) = [0] \<and>
   map utt_text (speechQueue (run two_clicks init)) = [js ''about''] \<and>
   audible (run two_clicks init) = 2"
proof -
  define w where "w = run offline_attempt init"
  have sh: "length (shown_results w) = 12" "expected (shown_results w ! 0) = ipa_eth"
    "expected (shown_results w ! Suc 0) = ipa_schwa"
    by (simp_all add: w_def shown_after_attempt phonemes_lengths first_symbols)
  have au: "audioRef w = None" "sounding w = []" "speechQueue w = []" "nextAudio w = 0"
    by (simp_all add: w_def after_attempt_audio)
  define w1 where "w1 = step (ClickExpected 0 SpeakPlayed) w"
  have w1: "sounding w1 = [0]" "speechQueue w1 = []" "shown_results w1 = shown_results w"
    by (simp_all add: w1_def sh au playPhoneme_played shown_results_playPhoneme)
  define w2 where "w2 = step (ClickExpected 1 SpeakNotOk) w1"
  from phonemeInfo_schwa obtain info where i: "phonemeInfo ipa_schwa = Own info"
    and e: "example info = js ''about, the, banana''" by simp
  have t: "trim (hd (split_at 0x2C (js ''about, the, banana''))) = js ''about''"
    by (simp add: js_def trim_def is_whitespace_def)
  have w2: "sounding w2 = [0]" "map utt_text (speechQueue w2) = [js ''about'']"
    by (simp_all add: w2_def w1 sh playPhoneme_not_ok(1) playPhoneme_not_ok(2) [OF i] e t)
  have "run two_clicks init = w2"
    by (simp add: two_clicks_def run_append w2_def w1_def w_def)
  with w2 show ?thesis by (auto simp: audible_def)
qed

section \<open>The score as a rounded percentage\<close>

text \<open>
  For every comparison of fewer than 40 entries and every number of correct entries,
  the double arithmetic of \<^verbatim>\<open>score\<close> gives the percentage rounded to the nearest
  integer, a half going up. The table is computed row by row.
\<close>

lemma table_1: "list_all table_row [1..<21]"
  by code_simp

lemma table_2: "list_all table_row [21..<29]"
  by code_simp

lemma table_3: "list_all table_row [29..<35]"
  by code_simp

lemma table_4: "list_all table_row [35..<40]"
  by code_simp

lemma score_table:
  assumes "0 < n" and "n < 40" and "c \<le> n"
  shows "score_of_counts c n = (200 * int c + int n) div (2 * int n)"
proof -
  from assms(1,2) have "n \<in> set [1..<21] \<or> n \<in> set [21..<29] \<or> n \<in> set [29..<35] \<or> n \<in> set [35..<40]"
    unfolding set_upt atLeastLessThan_iff by arith
  with table_1 table_2 table_3 table_4 have "table_row n"
    unfolding list_all_iff by blast
  moreover from assms(3) have "c \<in> set [0..<Suc n]"
    unfolding set_upt atLeastLessThan_iff by arith
  ultimately show ?thesis unfolding table_row_def list_all_iff by blast
qed

lemma round_div:
  assumes "0 < b"
  shows "round (100 * real_of_int a / real_of_int b) = (200 * a + b) div (2 * b)"
proof -
  have "100 * real_of_int a / real_of_int b + 1 / 2 = real_of_int (200 * a + b) / real_of_int (2 * b)"
    using assms by (simp add: field_simps)
  then show ?thesis
    unfolding round_def by (simp only: floor_divide_of_int_eq)
qed

lemma one_times_100: "Math_round (double_times (4503599627370496, - 52) 100) = 100"
  by code_simp

lemma score_all: "0 < n \<Longrightarrow> score_of_counts n n = 100"
proof -
  assume n: "0 < n"
  have "to_double (int n) (int n) = (4503599627370496, - 52)"
    using n by (simp add: to_double_def binade_def round_half_even_def Let_def)
  then show ?thesis by (simp add: score_of_counts_def one_times_100)
qed

lemma score_none: "score_of_counts 0 n = 0"
  by (simp add: score_of_counts_def to_double_def double_times_def Math_round_def)

text \<open>
  The formula of the specification, with the product taken before the quotient, gives
  the rounded percentage for every comparison of at most 40 entries.
\<close>

lemma percent_1: "list_all percent_row [1..<21]"
  by code_simp

lemma percent_2: "list_all percent_row [21..<29]"
  by code_simp

lemma percent_3: "list_all percent_row [29..<35]"
  by code_simp

lemma percent_4: "list_all percent_row [35..<41]"
  by code_simp

lemma percent_table:
  assumes "0 < n" and "n \<le> 40" and "c \<le> n"
  shows "percent_of_counts c n = (200 * int c + int n) div (2 * int n)"
proof -
  from assms(1,2) have "n \<in> set [1..<21] \<or> n \<in> set [21..<29] \<or> n \<in> set [29..<35] \<or> n \<in> set [35..<41]"
    unfolding set_upt atLeastLessThan_iff by arith
  with percent_1 percent_2 percent_3 percent_4 have "percent_row n"
    unfolding list_all_iff by blast
  moreover from assms(3) have "c \<in> set [0..<Suc n]"
    unfolding set_upt atLeastLessThan_iff by arith
  ultimately show ?thesis unfolding percent_row_def list_all_iff by blast
qed

text \<open>
  Below 40 entries the score is \<open>100 * correctCount / total\<close> rounded to the nearest
  integer, a half going up; for a comparison of any length that is not empty, the
  score is 100 when every entry is correct and 0 when none is.
\<close>

lemma score_rounds_below_forty:
  "(rs \<noteq> [] \<and> length rs < 40 \<longrightarrow>
      score (Some rs) =
        Some (round (100 * real (length (filter correct rs)) / real (length rs)))) \<and>
   (rs \<noteq> [] \<and> (\<forall>r\<in>set rs. correct r) \<longrightarrow> score (Some rs) = Some 100) \<and>
   (rs \<noteq> [] \<and> (\<forall>r\<in>set rs. \<not> correct r) \<longrightarrow> score (Some rs) = Some 0)"
proof (intro conjI impI)
  assume a: "rs \<noteq> [] \<and> length rs < 40"
  then have n: "0 < length rs" by simp
  have "round (100 * real_of_int (int (length (filter correct rs))) / real_of_int (int (length rs)))
      = (200 * int (length (filter correct rs)) + int (length rs)) div (2 * int (length rs))"
    using n by (intro round_div) simp
  moreover have "score_of_counts (length (filter correct rs)) (length rs)
      = (200 * int (length (filter correct rs)) + int (length rs)) div (2 * int (length rs))"
    using a n by (intro score_table) simp_all
  ultimately show "score (Some rs) =
      Some (round (100 * real (length (filter correct rs)) / real (length rs)))"
    using a by (simp add: score_def)
next
  assume a: "rs \<noteq> [] \<and> (\<forall>r\<in>set rs. correct r)"
  then have "filter correct rs = rs" by simp
  with a show "score (Some rs) = Some 100" by (simp add: score_def score_all)
next
  assume a: "rs \<noteq> [] \<and> (\<forall>r\<in>set rs. \<not> correct r)"
  then have "filter correct rs = []" by simp
  with a show "score (Some rs) = Some 0" by (simp add: score_def score_none)
qed

text \<open>
  C4: 23 correct entries out of 40 are 57.5 percent, which rounds to 58, and the
  formula \<open>round(100 * correctCount / total)\<close> gives 58 in double arithmetic as well:
  the product 2300 and the quotient 57.5 are exact. The code divides first. The
  quotient \<^verbatim>\<open>23 / 40\<close> is not a double; the nearest double times 100 rounds to the
  double just below 57.5, and \<^verbatim>\<open>Math.round\<close> gives 57.
\<close>

theorem score_forty_entries:
  "forty_entries \<noteq> [] \<and>
   length (filter correct forty_entries) = 23 \<and> length forty_entries = 40 \<and>
   score (Some forty_entries) = Some 57 \<and>
   percent_of_counts (length (filter correct forty_entries)) (length forty_entries) = 58 \<and>
   round (100 * real (length (filter correct forty_entries)) / real (length forty_entries)) = 58"
proof -
  have l: "length (filter correct forty_entries) = 23" "length forty_entries = 40"
    by (simp_all add: forty_entries_def)
  have n: "forty_entries \<noteq> []" using l(2) by auto
  have s: "score_of_counts 23 40 = 57" by code_simp
  have p: "percent_of_counts 23 40 = 58" by code_simp
  have "round (100 * real_of_int 23 / real_of_int 40) = (58::int)"
    by (subst round_div) simp_all
  then have r: "round (100 * real 23 / real 40) = (58::int)" by simp
  from n l s p r show ?thesis by (simp add: score_def)
qed

end
